theory Spec2Isabelle
  imports Main "HOL-Library.Sublist" "HOL-Library.AList"
begin

text \<open>
  A model of the build engine of \<^verbatim>\<open>server.js\<close>: the path sandbox
  \<^verbatim>\<open>resolveSafePath\<close>, the single build \<^verbatim>\<open>performBuild\<close> (cache invalidation, loading
  and merging of the data sources, template loading and export resolution, render
  and minify, output placement) and the batch handler \<^verbatim>\<open>POST /api/build/batch\<close>.
  Functions keep the names of the source.  The state a build changes
  (\<^verbatim>\<open>require.cache\<close>, the loader's own state and the file system) is passed
  explicitly; a thrown value is a left result.
\<close>

section \<open>JavaScript strings\<close>

text \<open>
  The methods of \<^verbatim>\<open>String.prototype\<close> that \<^verbatim>\<open>server.js\<close> calls.  A string is
  the list of its code units; \<^verbatim>\<open>s.startsWith(p)\<close> and \<^verbatim>\<open>s.endsWith(t)\<close> compare code
  units, and \<^verbatim>\<open>s.replace(pat, rep)\<close> with a string pattern replaces the first
  occurrence of \<^verbatim>\<open>pat\<close> only (the replacement used in the program is the empty
  string, which has no \<^verbatim>\<open>$\<close> pattern).
\<close>

definition startsWith :: "string \<Rightarrow> string \<Rightarrow> bool" where
  "startsWith s p = prefix p s"

definition endsWith :: "string \<Rightarrow> string \<Rightarrow> bool" where
  "endsWith s t = suffix t s"

fun replace :: "string \<Rightarrow> string \<Rightarrow> string \<Rightarrow> string" where
  "replace [] pat rep = (if pat = [] then rep else [])"
| "replace (c # cs) pat rep =
     (if prefix pat (c # cs) then rep @ drop (length pat) (c # cs)
      else c # replace cs pat rep)"

section \<open>The POSIX \<^verbatim>\<open>path\<close> module\<close>

text \<open>
  \<^verbatim>\<open>server.js\<close> runs on Node's POSIX \<^verbatim>\<open>path\<close> implementation (the Dockerfile
  builds on \<^verbatim>\<open>node:18-alpine\<close>).  The functions below follow
  \<^verbatim>\<open>lib/path.js\<close>: \<^verbatim>\<open>normalizeString\<close> walks the segments between slashes,
  drops empty and \<^verbatim>\<open>.\<close> segments, and lets \<^verbatim>\<open>..\<close> remove the segment before it
  (or, above the start of a relative path, keeps it when \<^verbatim>\<open>allowAboveRoot\<close> holds).
\<close>

fun split_slash :: "string \<Rightarrow> string list" where
  "split_slash [] = [[]]"
| "split_slash (c # cs) =
     (if c = CHR ''/'' then [] # split_slash cs
      else (case split_slash cs of
              [] \<Rightarrow> [[c]]
            | s # ss \<Rightarrow> (c # s) # ss))"

fun join_slash :: "string list \<Rightarrow> string" where
  "join_slash [] = []"
| "join_slash [s] = s"
| "join_slash (s # t # ss) = s @ ''/'' @ join_slash (t # ss)"

definition normalize_step :: "bool \<Rightarrow> string list \<Rightarrow> string \<Rightarrow> string list" where
  "normalize_step allowAboveRoot res seg =
     (if seg = [] \<or> seg = ''.'' then res
      else if seg = ''..'' then
        (if res \<noteq> [] \<and> last res \<noteq> ''..'' then butlast res
         else if allowAboveRoot then res @ [''..'']
         else res)
      else res @ [seg])"

definition normalize_segments :: "bool \<Rightarrow> string \<Rightarrow> string list" where
  "normalize_segments allowAboveRoot path =
     foldl (normalize_step allowAboveRoot) [] (split_slash path)"

definition normalizeString :: "string \<Rightarrow> bool \<Rightarrow> string" where
  "normalizeString path allowAboveRoot = join_slash (normalize_segments allowAboveRoot path)"

definition isAbsolute :: "string \<Rightarrow> bool" where
  "isAbsolute path = (path \<noteq> [] \<and> hd path = CHR ''/'')"

text \<open>
  \<^verbatim>\<open>path.resolve(...args)\<close>: the arguments are prepended from the right until an
  absolute one has been taken; the current working directory \<^verbatim>\<open>cwd\<close> comes last.
  Empty arguments are skipped.
\<close>

fun resolve_loop :: "string list \<Rightarrow> string \<Rightarrow> string \<times> bool" where
  "resolve_loop [] resolvedPath = (resolvedPath, False)"
| "resolve_loop (path # rest) resolvedPath =
     (if path = [] then resolve_loop rest resolvedPath
      else if isAbsolute path then (path @ ''/'' @ resolvedPath, True)
      else resolve_loop rest (path @ ''/'' @ resolvedPath))"

definition path_resolve :: "string \<Rightarrow> string list \<Rightarrow> string" where
  "path_resolve cwd args =
     (case resolve_loop (rev args @ [cwd]) [] of
        (resolvedPath, resolvedAbsolute) \<Rightarrow>
          (let n = normalizeString resolvedPath (\<not> resolvedAbsolute)
           in if resolvedAbsolute then ''/'' @ n
              else if n \<noteq> [] then n else ''.''))"

text \<open>\<^verbatim>\<open>path.normalize\<close> and \<^verbatim>\<open>path.join\<close>.\<close>

definition path_normalize :: "string \<Rightarrow> string" where
  "path_normalize path =
     (if path = [] then ''.''
      else
        (let trailingSeparator = (last path = CHR ''/'');
             n = normalizeString path (\<not> isAbsolute path)
         in if n = [] then
              (if isAbsolute path then ''/''
               else if trailingSeparator then ''./'' else ''.'')
            else
              (let n' = (if trailingSeparator then n @ ''/'' else n)
               in if isAbsolute path then ''/'' @ n' else n')))"

definition path_join :: "string list \<Rightarrow> string" where
  "path_join args =
     (let parts = filter (\<lambda>arg. arg \<noteq> []) args
      in if parts = [] then ''.'' else path_normalize (join_slash parts))"

text \<open>
  \<^verbatim>\<open>path.dirname\<close>: scanning from the end (never looking at index 0), trailing
  slashes are skipped, then the last segment; the result is the part before the slash
  that precedes that segment.
\<close>

definition path_dirname :: "string \<Rightarrow> string" where
  "path_dirname path =
     (if path = [] then ''.''
      else
        (let hasRoot = (hd path = CHR ''/'');
             r = dropWhile (\<lambda>c. c \<noteq> CHR ''/'')
                   (dropWhile (\<lambda>c. c = CHR ''/'') (rev (tl path)))
         in if r = [] then (if hasRoot then ''/'' else ''.'')
            else if hasRoot \<and> tl r = [] then ''//''
            else hd path # rev (tl r)))"

section \<open>JavaScript values\<close>

text \<open>
  The values that template code hands to the program: what \<^verbatim>\<open>require\<close> returns
  for a template module, and what a template throws.  A function (a component) is
  identified by a name and, like an object, carries properties.  An \<^verbatim>\<open>Error\<close> is an
  object with a \<^verbatim>\<open>message\<close> property.
\<close>

datatype jsval =
    VUndefined
  | VNull
  | VBool bool
  | VNum int
  | VStr string
  | VFunction string "(string \<times> jsval) list"
  | VObject "(string \<times> jsval) list"

fun truthyV :: "jsval \<Rightarrow> bool" where
  "truthyV VUndefined = False"
| "truthyV VNull = False"
| "truthyV (VBool b) = b"
| "truthyV (VNum n) = (n \<noteq> 0)"
| "truthyV (VStr s) = (s \<noteq> [])"
| "truthyV (VFunction f ps) = True"
| "truthyV (VObject ps) = True"

definition ErrorObject :: "string \<Rightarrow> jsval" where
  "ErrorObject m = VObject [(''message'', VStr m)]"

section \<open>Errors\<close>

text \<open>
  A failure of the program is a thrown value.  The model tags it with the call that
  threw it.  The Node library, \<^verbatim>\<open>fs-extra\<close> and \<^verbatim>\<open>html-minifier\<close> throw \<^verbatim>\<open>Error\<close>
  objects, kept by their message; what \<^verbatim>\<open>require\<close> and the renderer throw comes from
  the template's own code and can be any value.
\<close>

datatype error =
    SecurityViolation
  | TypeError string
  | ReadJsonError string
  | ReaddirError string
  | RequireError jsval
  | RenderError jsval
  | MinifyError string
  | EnsureDirError string
  | WriteFileError string

text \<open>
  Reading a property \<^verbatim>\<open>v.name\<close>: a \<^verbatim>\<open>TypeError\<close> on \<^verbatim>\<open>undefined\<close> and \<^verbatim>\<open>null\<close>,
  the property's value on a function or object that has it, \<^verbatim>\<open>undefined\<close> otherwise
  (the names the program reads, \<^verbatim>\<open>default\<close>, \<^verbatim>\<open>App\<close> and \<^verbatim>\<open>message\<close>, are on no
  prototype of a function, a plain object or a primitive).
\<close>

definition quoted :: "string \<Rightarrow> string" where
  "quoted s = CHR 0x27 # s @ [CHR 0x27]"

fun getProp :: "jsval \<Rightarrow> string \<Rightarrow> error + jsval" where
  "getProp VUndefined name =
     Inl (TypeError (''Cannot read properties of undefined (reading '' @ quoted name @ '')''))"
| "getProp VNull name =
     Inl (TypeError (''Cannot read properties of null (reading '' @ quoted name @ '')''))"
| "getProp (VFunction f ps) name =
     Inr (case map_of ps name of None \<Rightarrow> VUndefined | Some v \<Rightarrow> v)"
| "getProp (VObject ps) name =
     Inr (case map_of ps name of None \<Rightarrow> VUndefined | Some v \<Rightarrow> v)"
| "getProp v name = Inr VUndefined"

text \<open>
  \<^verbatim>\<open>err.message\<close>, as the batch loop reads it in its \<^verbatim>\<open>catch\<close>: the message of an
  \<^verbatim>\<open>Error\<close>; for a value thrown by template code, its \<^verbatim>\<open>message\<close> property, the
  reading of which throws when the value is \<^verbatim>\<open>null\<close> or \<^verbatim>\<open>undefined\<close>.
\<close>

fun message :: "error \<Rightarrow> error + jsval" where
  "message SecurityViolation = Inr (VStr ''Security Violation: Access Denied'')"
| "message (TypeError m) = Inr (VStr m)"
| "message (ReadJsonError m) = Inr (VStr m)"
| "message (ReaddirError m) = Inr (VStr m)"
| "message (RequireError v) = getProp v ''message''"
| "message (RenderError v) = getProp v ''message''"
| "message (MinifyError m) = Inr (VStr m)"
| "message (EnsureDirError m) = Inr (VStr m)"
| "message (WriteFileError m) = Inr (VStr m)"

text \<open>
  A field of a request body that the program passes to \<^verbatim>\<open>path\<close>: a string, or a
  value that is not one (an absent field is \<^verbatim>\<open>undefined\<close>), kept as Node's
  \<^verbatim>\<open>ERR_INVALID_ARG_TYPE\<close> message describes it (\<^verbatim>\<open>undefined\<close>, \<^verbatim>\<open>null\<close>,
  \<^verbatim>\<open>type number (5)\<close>, ...).  \<^verbatim>\<open>validateString\<close> throws for it, in
  \<^verbatim>\<open>path.join\<close> with the message below; in \<^verbatim>\<open>path.resolve\<close> some releases of
  Node name the argument \<^verbatim>\<open>paths[1]\<close> instead, which the model does not tell apart.
\<close>

datatype field = Text string | NonString string

definition invalidPathArgument :: "string \<Rightarrow> error" where
  "invalidPathArgument received =
     TypeError (''The '' @ [CHR 0x22] @ ''path'' @ [CHR 0x22]
                @ '' argument must be of type string. Received '' @ received)"

section \<open>The path sandbox\<close>

text \<open>
  \<^verbatim>\<open>
  const resolveSafePath = (baseDir, userInput) => {
      const safeBase = path.resolve(baseDir);
      const resolvedPath = path.resolve(safeBase, userInput);
      if (!resolvedPath.startsWith(safeBase)) throw new Error('Security Violation: Access Denied');
      return resolvedPath;
  };
  \<close>
\<close>

definition resolveSafePath :: "string \<Rightarrow> string \<Rightarrow> string \<Rightarrow> error + string" where
  "resolveSafePath cwd baseDir userInput =
     (let safeBase = path_resolve cwd [baseDir];
          resolvedPath = path_resolve cwd [safeBase, userInput]
      in if \<not> startsWith resolvedPath safeBase then Inl SecurityViolation
         else Inr resolvedPath)"

text \<open>
  Containment under the path-separator boundary: \<open>p\<close> is the root itself, or the
  root followed by a separator and more (every absolute path is inside the root
  \<^verbatim>\<open>/\<close>).
\<close>

definition insideRoot :: "string \<Rightarrow> string \<Rightarrow> bool" where
  "insideRoot root p =
     (p = root \<or> prefix (root @ ''/'') p \<or> (root = ''/'' \<and> isAbsolute p))"

section \<open>JSON values\<close>

text \<open>
  What \<^verbatim>\<open>fs.readJson\<close> returns, as JavaScript holds it: a scalar, or an object with
  string-keyed properties.  An array is an object too, whose properties are keyed by
  the decimal indices \<^verbatim>\<open>"0"\<close>, \<^verbatim>\<open>"1"\<close>, ...; \<open>JArr\<close> builds one from the list of
  its elements.  The property list gives the own properties in enumeration order.
  Numbers are modelled as integers: the program only copies them and tests them
  for zero.
\<close>

datatype shape = PlainObject | ArrayObject

datatype json =
    JNull
  | JBool bool
  | JNum int
  | JStr string
  | JObj shape "(string \<times> json) list"

type_synonym props = "(string \<times> json) list"

definition digit :: "nat \<Rightarrow> char" where
  "digit d = ''0123456789'' ! d"

function index_key :: "nat \<Rightarrow> string" where
  "index_key i = (if i < 10 then [digit i] else index_key (i div 10) @ [digit (i mod 10)])"
  by pat_completeness auto
termination
  by (relation "measure (\<lambda>i. i)") auto

declare index_key.simps [simp del]

definition indexed :: "json list \<Rightarrow> props" where
  "indexed xs = zip (map index_key [0 ..< length xs]) xs"

definition JArr :: "json list \<Rightarrow> json" where
  "JArr xs = JObj ArrayObject (indexed xs)"

definition JObject :: "props \<Rightarrow> json" where
  "JObject ps = JObj PlainObject ps"

text \<open>JavaScript truthiness of a JSON value (the operand of \<^verbatim>\<open>||\<close> and \<^verbatim>\<open>if\<close>).\<close>

fun truthy :: "json \<Rightarrow> bool" where
  "truthy JNull = False"
| "truthy (JBool b) = b"
| "truthy (JNum n) = (n \<noteq> 0)"
| "truthy (JStr s) = (s \<noteq> [])"
| "truthy (JObj sh ps) = True"

section \<open>\<^verbatim>\<open>lodash.merge\<close>\<close>

text \<open>
  \<^verbatim>\<open>merge\<close> is the \<^verbatim>\<open>lodash.merge\<close> package, a dependency of the program.  The
  model follows its \<^verbatim>\<open>baseMerge\<close> and \<^verbatim>\<open>baseMergeDeep\<close> on the values the program
  passes: the sources are fresh results of \<^verbatim>\<open>JSON.parse\<close> (trees without
  \<^verbatim>\<open>undefined\<close>, functions or cycles, so the customizer, the cycle stack and the
  typed-array branches never run).

  \<^verbatim>\<open>baseMerge(object, source)\<close> visits the properties of \<^verbatim>\<open>source\<close> in order.  For a
  \<^verbatim>\<open>srcValue\<close> that is not an object, \<^verbatim>\<open>assignMergeValue\<close> stores it under the key.
  For an array \<^verbatim>\<open>srcValue\<close>, \<^verbatim>\<open>baseMergeDeep\<close> merges it into the value already there
  when that is an array, and into a fresh \<^verbatim>\<open>[]\<close> otherwise; for a plain object
  \<^verbatim>\<open>srcValue\<close>, it merges into the value already there when that is an object (an
  array included), and into a fresh \<^verbatim>\<open>{}\<close> otherwise.  Storing under a key replaces
  the value in place, or appends the key when it is new (the property list keeps
  insertion order; JavaScript enumerates the integer-like keys of a plain object
  first, which changes no value read under a key).

  The model reads every key as an ordinary one.  lodash does not, for the keys
  that name properties an object or array has without owning them by assignment:
  it drops an object-valued \<^verbatim>\<open>__proto__\<close>, finds inherited functions under names
  such as \<^verbatim>\<open>constructor\<close> and \<^verbatim>\<open>toString\<close>, changes an array's length through a
  \<^verbatim>\<open>length\<close> key, and copies a plain object with a numeric \<^verbatim>\<open>length\<close> as an array
  before merging an array into it.  The model is of the merge on values without
  such keys: \<open>ordinary\<close> below says which.
\<close>

fun baseMerge :: "props \<Rightarrow> props \<Rightarrow> props"
  and mergedValue :: "json option \<Rightarrow> json \<Rightarrow> json" where
  "baseMerge object [] = object"
| "baseMerge object ((key, srcValue) # rest) =
     baseMerge (AList.update key (mergedValue (map_of object key) srcValue) object) rest"
| "mergedValue objValue (JObj ArrayObject src) =
     (case objValue of
        Some (JObj ArrayObject obj) \<Rightarrow> JObj ArrayObject (baseMerge obj src)
      | _ \<Rightarrow> JObj ArrayObject (baseMerge [] src))"
| "mergedValue objValue (JObj PlainObject src) =
     (case objValue of
        Some (JObj sh obj) \<Rightarrow> JObj sh (baseMerge obj src)
      | _ \<Rightarrow> JObj PlainObject (baseMerge [] src))"
| "mergedValue objValue JNull = JNull"
| "mergedValue objValue (JBool b) = JBool b"
| "mergedValue objValue (JNum n) = JNum n"
| "mergedValue objValue (JStr s) = JStr s"

text \<open>
  The properties \<^verbatim>\<open>baseMerge\<close> enumerates in a top-level source: those of an
  object or array; the indexed characters of a string; none for a number or a
  boolean.  (\<^verbatim>\<open>merge\<close> skips a falsy source, which has no properties either.)
\<close>

fun sourceProps :: "json \<Rightarrow> props" where
  "sourceProps (JObj sh ps) = ps"
| "sourceProps (JStr s) = indexed (map (\<lambda>c. JStr [c]) s)"
| "sourceProps v = []"

definition merge :: "props \<Rightarrow> json \<Rightarrow> props" where
  "merge object source = baseMerge object (sourceProps source)"

text \<open>
  The names of the properties of \<^verbatim>\<open>Object.prototype\<close> and \<^verbatim>\<open>Array.prototype\<close>,
  with \<^verbatim>\<open>length\<close>.  A JSON value is \<open>ordinary\<close> when, at every depth, the keys
  of an object or array are distinct and none is such a name.  This is asked of
  the object merged into.
\<close>

definition prototypeNames :: "string list" where
  "prototypeNames =
     [''length'', ''constructor'', ''__proto__'', ''__defineGetter__'', ''__defineSetter__'',
      ''__lookupGetter__'', ''__lookupSetter__'', ''hasOwnProperty'', ''isPrototypeOf'',
      ''propertyIsEnumerable'', ''toLocaleString'', ''toString'', ''valueOf'',
      ''at'', ''concat'', ''copyWithin'', ''entries'', ''every'', ''fill'', ''filter'',
      ''find'', ''findIndex'', ''findLast'', ''findLastIndex'', ''flat'', ''flatMap'',
      ''forEach'', ''group'', ''groupToMap'', ''includes'', ''indexOf'', ''join'', ''keys'',
      ''lastIndexOf'', ''map'', ''pop'', ''push'', ''reduce'', ''reduceRight'', ''reverse'',
      ''shift'', ''slice'', ''some'', ''sort'', ''splice'', ''toReversed'', ''toSorted'',
      ''toSpliced'', ''unshift'', ''values'', ''with'']"

definition inheritedName :: "string \<Rightarrow> bool" where
  "inheritedName k = (k \<in> set prototypeNames)"

fun ordinary :: "json \<Rightarrow> bool" where
  "ordinary (JObj sh ps) =
     (distinct (map fst ps) \<and> (\<forall>p \<in> set ps. \<not> inheritedName (fst p) \<and> ordinary (snd p)))"
| "ordinary v = True"

definition ordinaryProps :: "props \<Rightarrow> bool" where
  "ordinaryProps ps = ordinary (JObj PlainObject ps)"

text \<open>
  A source of the merge is more: a result of \<^verbatim>\<open>JSON.parse\<close>, whose arrays have
  every index from \<open>0\<close> to their length and no other property.  (\<^verbatim>\<open>baseMerge\<close>
  enumerates the indices of an array source, a missing element as \<^verbatim>\<open>undefined\<close>.)
\<close>

fun parsed :: "json \<Rightarrow> bool" where
  "parsed (JObj PlainObject ps) =
     (distinct (map fst ps) \<and> (\<forall>p \<in> set ps. \<not> inheritedName (fst p) \<and> parsed (snd p)))"
| "parsed (JObj ArrayObject ps) =
     (map fst ps = map index_key [0 ..< length ps] \<and> (\<forall>p \<in> set ps. parsed (snd p)))"
| "parsed v = True"

section \<open>Template modules\<close>

text \<open>\<^verbatim>\<open>const App = Component.default || Component.App || Component;\<close>\<close>

definition resolveExport :: "jsval \<Rightarrow> error + jsval" where
  "resolveExport Component =
     (case getProp Component ''default'' of
        Inl e \<Rightarrow> Inl e
      | Inr d \<Rightarrow>
          if truthyV d then Inr d
          else (case getProp Component ''App'' of
                  Inl e \<Rightarrow> Inl e
                | Inr a \<Rightarrow> if truthyV a then Inr a else Inr Component))"

section \<open>The environment and the state\<close>

text \<open>
  The program's collaborators are parameters of the model: the file system
  (\<^verbatim>\<open>fs-extra\<close>), Node's module loader behind \<^verbatim>\<open>@babel/register\<close>, React's
  \<^verbatim>\<open>renderToStaticMarkup(createElement(App, props))\<close> and \<^verbatim>\<open>html-minifier\<close>.  A
  left result is what the call throws: the message of a library's \<^verbatim>\<open>Error\<close>, or
  the value thrown by template code.

  The file system state \<open>'fs\<close> is abstract; \<open>ensureDir\<close> and \<open>writeFile\<close> return the
  file system they leave behind also when they throw.  The loader has two parts.
  \<open>resolveFilename\<close> is \<^verbatim>\<open>Module._resolveFilename\<close>: the file name a request path
  stands for, with the extension found and symbolic links followed.
  \<open>loadModule\<close> compiles and runs the file of that name; \<^verbatim>\<open>@babel/register\<close> keeps
  compiled code between loads, so it works on a state \<open>'ld\<close> of its own and returns
  the new one.  Loading and rendering a template are taken to have no effect on
  the file system.
\<close>

record ('fs, 'ld) env =
  cwd :: string
  dirname :: string
  readJson :: "'fs \<Rightarrow> string \<Rightarrow> string + json"
  readdir :: "'fs \<Rightarrow> string \<Rightarrow> string + string list"
  resolveFilename :: "'fs \<Rightarrow> string \<Rightarrow> string + string"
  loadModule :: "'ld \<Rightarrow> 'fs \<Rightarrow> string \<Rightarrow> (jsval + jsval) \<times> 'ld"
  renderToStaticMarkup :: "jsval \<Rightarrow> json \<Rightarrow> jsval + string"
  minify :: "string \<Rightarrow> string + string"
  ensureDir :: "'fs \<Rightarrow> string \<Rightarrow> string option \<times> 'fs"
  writeFile :: "'fs \<Rightarrow> string \<Rightarrow> string \<Rightarrow> string option \<times> 'fs"

text \<open>
  The mutable state: \<^verbatim>\<open>require.cache\<close>, a dictionary from the resolved file name
  of a loaded module to the module; the loader's state; the file system.
\<close>

record ('fs, 'ld) world =
  cache :: "string \<rightharpoonup> jsval"
  loader :: "'ld"
  fs :: "'fs"

text \<open>
  \<^verbatim>\<open>
  const STORAGE = {
      templates: path.join(__dirname, 'storage', 'templates'),
      data: path.join(__dirname, 'storage', 'data'),
      output: path.join(__dirname, 'storage', 'output'),
      config: path.join(__dirname, 'storage', 'config')
  };
  \<close>
\<close>

record storage =
  templates :: string
  data :: string
  "output" :: string
  config :: string

definition STORAGE :: "('fs, 'ld) env \<Rightarrow> storage" where
  "STORAGE env =
     \<lparr> templates = path_join [dirname env, ''storage'', ''templates''],
       data = path_join [dirname env, ''storage'', ''data''],
       output = path_join [dirname env, ''storage'', ''output''],
       config = path_join [dirname env, ''storage'', ''config''] \<rparr>"

section \<open>The build engine\<close>

text \<open>
  \<^verbatim>\<open>
  Object.keys(require.cache).forEach(key => {
      if (key.startsWith(STORAGE.templates)) delete require.cache[key];
  });
  \<close>
\<close>

definition clearCache :: "('fs, 'ld) env \<Rightarrow> ('fs, 'ld) world \<Rightarrow> ('fs, 'ld) world" where
  "clearCache env w =
     w\<lparr> cache := (\<lambda>k. if startsWith k (templates (STORAGE env)) then None
                       else cache w k) \<rparr>"

text \<open>
  A data source \<^verbatim>\<open>{ filename, key? }\<close> of the request; \<open>None\<close> is an absent field.
  \<^verbatim>\<open>!src.filename\<close> and \<^verbatim>\<open>src.key\<close> test truthiness: an absent string and the
  empty string are falsy.  \<open>truthyS\<close> gives the string when it is truthy.
\<close>

record dataSource =
  filename :: "string option"
  key :: "string option"

fun truthyS :: "string option \<Rightarrow> string option" where
  "truthyS None = None"
| "truthyS (Some s) = (if s = [] then None else Some s)"

text \<open>
  \<^verbatim>\<open>content[src.key] || {}\<close>: reading a property of \<^verbatim>\<open>null\<close> throws; an object or
  array gives its property, a string its indexed character; a missing or falsy value
  gives way to \<^verbatim>\<open>{}\<close>.  (An inherited property, such as the \<^verbatim>\<open>length\<close> of an array,
  is read as missing: merging it, a number or a function, adds no property either.)
\<close>

definition contentAt :: "json \<Rightarrow> string \<Rightarrow> error + json" where
  "contentAt content k =
     (if content = JNull then
        Inl (TypeError (''Cannot read properties of null (reading '' @ quoted k @ '')''))
      else (case map_of (sourceProps content) k of
              None \<Rightarrow> Inr (JObj PlainObject [])
            | Some v \<Rightarrow> Inr (if truthy v then v else JObj PlainObject [])))"

text \<open>
  \<^verbatim>\<open>
  let finalProps = {};
  for (const src of dataSources) {
      if (!src.filename) continue;
      const fullDataPath = resolveSafePath(STORAGE.data, src.filename);
      const content = await fs.readJson(fullDataPath);
      if (src.key) merge(finalProps, content[src.key] || {});
      else merge(finalProps, content);
  }
  \<close>
  \<open>finalProps\<close>, always a plain object, is held as its property list.
  \<open>sourceValue\<close> is one pass of the loop body up to the value it merges: \<open>None\<close>
  when the pass ends at \<^verbatim>\<open>continue\<close>.
\<close>

definition sourceValue :: "('fs, 'ld) env \<Rightarrow> 'fs \<Rightarrow> dataSource \<Rightarrow> error + json option" where
  "sourceValue env f src =
     (case truthyS (filename src) of
        None \<Rightarrow> Inr None
      | Some name \<Rightarrow>
        (case resolveSafePath (cwd env) (data (STORAGE env)) name of
           Inl e \<Rightarrow> Inl e
         | Inr fullDataPath \<Rightarrow>
             (case readJson env f fullDataPath of
                Inl m \<Rightarrow> Inl (ReadJsonError m)
              | Inr content \<Rightarrow>
                  (case truthyS (key src) of
                     Some k \<Rightarrow>
                       (case contentAt content k of
                          Inl e \<Rightarrow> Inl e
                        | Inr v \<Rightarrow> Inr (Some v))
                   | None \<Rightarrow> Inr (Some content)))))"

fun resolveData ::
  "('fs, 'ld) env \<Rightarrow> 'fs \<Rightarrow> props \<Rightarrow> dataSource list \<Rightarrow> error + props" where
  "resolveData env f finalProps [] = Inr finalProps"
| "resolveData env f finalProps (src # rest) =
     (case sourceValue env f src of
        Inl e \<Rightarrow> Inl e
      | Inr None \<Rightarrow> resolveData env f finalProps rest
      | Inr (Some v) \<Rightarrow> resolveData env f (merge finalProps v) rest)"

text \<open>
  \<^verbatim>\<open>require(fullTemplatePath)\<close>, as Node's \<^verbatim>\<open>Module._load\<close> runs it: the request is
  resolved to a file name (a failure to resolve throws an \<^verbatim>\<open>Error\<close>); a module
  cached under that file name is returned as it is; otherwise the file is loaded
  and, when that succeeds, cached under the file name.  A template is taken as the
  one module of its file.
\<close>

definition require ::
  "('fs, 'ld) env \<Rightarrow> ('fs, 'ld) world \<Rightarrow> string \<Rightarrow> (error + jsval) \<times> ('fs, 'ld) world" where
  "require env w request =
     (case resolveFilename env (fs w) request of
        Inl m \<Rightarrow> (Inl (RequireError (ErrorObject m)), w)
      | Inr file_name \<Rightarrow>
          (case cache w file_name of
             Some m \<Rightarrow> (Inr m, w)
           | None \<Rightarrow>
               (case loadModule env (loader w) (fs w) file_name of
                  (Inl thrown, ld) \<Rightarrow> (Inl (RequireError thrown), w\<lparr> loader := ld \<rparr>)
                | (Inr m, ld) \<Rightarrow>
                    (Inr m, w\<lparr> cache := (cache w)(file_name \<mapsto> m), loader := ld \<rparr>))))"

text \<open>
  \<^verbatim>\<open>
  let finalPath = outputRelPath;
  if (!finalPath.endsWith('.html')) finalPath = path.join(finalPath, 'index.html');
  \<close>
\<close>

definition finalPathOf :: "string \<Rightarrow> string" where
  "finalPathOf outputRelPath =
     (if \<not> endsWith outputRelPath ''.html'' then path_join [outputRelPath, ''index.html'']
      else outputRelPath)"

text \<open>
  The second half of \<^verbatim>\<open>performBuild\<close>, from the loaded \<^verbatim>\<open>Component\<close> on:
  \<^verbatim>\<open>
  const App = Component.default || Component.App || Component;
  const html = ReactDOMServer.renderToStaticMarkup(React.createElement(App, finalProps));
  const minified = minify(html, { collapseWhitespace: true, minifyJS: true, minifyCSS: true });
  let finalPath = outputRelPath;
  if (!finalPath.endsWith('.html')) finalPath = path.join(finalPath, 'index.html');
  const fullOutputPath = resolveSafePath(STORAGE.output, finalPath);
  await fs.ensureDir(path.dirname(fullOutputPath));
  await fs.writeFile(fullOutputPath, minified);
  return finalPath;
  \<close>
\<close>

definition renderAndWrite ::
  "('fs, 'ld) env \<Rightarrow> ('fs, 'ld) world \<Rightarrow> jsval \<Rightarrow> props \<Rightarrow> string
     \<Rightarrow> (error + string) \<times> ('fs, 'ld) world" where
  "renderAndWrite env w Component finalProps outputRelPath =
     (case resolveExport Component of
        Inl e \<Rightarrow> (Inl e, w)
      | Inr App \<Rightarrow>
     (case renderToStaticMarkup env App (JObj PlainObject finalProps) of
        Inl thrown \<Rightarrow> (Inl (RenderError thrown), w)
      | Inr html \<Rightarrow>
     (case minify env html of
        Inl m \<Rightarrow> (Inl (MinifyError m), w)
      | Inr minified \<Rightarrow>
     (case resolveSafePath (cwd env) (output (STORAGE env)) (finalPathOf outputRelPath) of
        Inl e \<Rightarrow> (Inl e, w)
      | Inr fullOutputPath \<Rightarrow>
     (case ensureDir env (fs w) (path_dirname fullOutputPath) of
        (Some m, fs1) \<Rightarrow> (Inl (EnsureDirError m), w\<lparr> fs := fs1 \<rparr>)
      | (None, fs1) \<Rightarrow>
     (case writeFile env fs1 fullOutputPath minified of
        (Some m, fs2) \<Rightarrow> (Inl (WriteFileError m), w\<lparr> fs := fs2 \<rparr>)
      | (None, fs2) \<Rightarrow> (Inr (finalPathOf outputRelPath), w\<lparr> fs := fs2 \<rparr>)))))))"

text \<open>
  \<^verbatim>\<open>performBuild(templatePath, dataSources, outputRelPath)\<close>: the cache is cleared, the
  data sources are merged, the template is loaded, and the second half runs.  A
  throw at any step ends the build with that error.
\<close>

definition performBuild ::
  "('fs, 'ld) env \<Rightarrow> ('fs, 'ld) world \<Rightarrow> string \<Rightarrow> dataSource list \<Rightarrow> string
     \<Rightarrow> (error + string) \<times> ('fs, 'ld) world" where
  "performBuild env w templatePath dataSources outputRelPath =
     (let w1 = clearCache env w in
      case resolveData env (fs w1) [] dataSources of
        Inl e \<Rightarrow> (Inl e, w1)
      | Inr finalProps \<Rightarrow>
     (case resolveSafePath (cwd env) (templates (STORAGE env)) templatePath of
        Inl e \<Rightarrow> (Inl e, w1)
      | Inr fullTemplatePath \<Rightarrow>
     (case require env w1 fullTemplatePath of
        (Inl e, w2) \<Rightarrow> (Inl e, w2)
      | (Inr Component, w2) \<Rightarrow>
          renderAndWrite env w2 Component finalProps outputRelPath)))"

section \<open>The batch build\<close>

text \<open>
  One entry of \<^verbatim>\<open>results\<close>: \<^verbatim>\<open>{ file, status: 'success', path: builtPath }\<close> or
  \<^verbatim>\<open>{ file, status: 'error', error: err.message }\<close>.  The \<^verbatim>\<open>error\<close> field holds
  whatever \<^verbatim>\<open>err.message\<close> is: the message string of an \<^verbatim>\<open>Error\<close>, \<^verbatim>\<open>undefined\<close> for
  a thrown string.
\<close>

record itemResult =
  "file" :: string
  status :: string
  path :: "string option"
  error :: "jsval option"

text \<open>
  \<^verbatim>\<open>
  const dataPath = path.join(dataFolder, file);
  // Use filename (without extension) as output folder/name
  const outputName = path.join(outputBase, file.replace('.json', ''));
  \<close>
\<close>

definition itemDataPath :: "string \<Rightarrow> string \<Rightarrow> string" where
  "itemDataPath dataFolder f = path_join [dataFolder, f]"

definition itemOutputName :: "string \<Rightarrow> string \<Rightarrow> string" where
  "itemOutputName outputBase f = path_join [outputBase, replace f ''.json'' []]"

definition itemDataSources :: "string \<Rightarrow> string \<Rightarrow> dataSource list" where
  "itemDataSources dataFolder f =
     [\<lparr> filename = Some (itemDataPath dataFolder f), key = None \<rparr>]"

text \<open>
  The loop over \<^verbatim>\<open>jsonFiles\<close>:
  \<^verbatim>\<open>
  for (const file of jsonFiles) {
      const dataPath = path.join(dataFolder, file);
      const outputName = path.join(outputBase, file.replace('.json', ''));
      try {
          const builtPath = await performBuild(templatePath, [{filename: dataPath}], outputName);
          results.push({ file, status: 'success', path: builtPath });
      } catch (err) {
          results.push({ file, status: 'error', error: err.message });
      }
  }
  \<close>
  Each build runs in the state the one before left.  Two throws leave the loop, and
  with it the handler's outer \<^verbatim>\<open>try\<close>: \<^verbatim>\<open>path.join(outputBase, ...)\<close>, outside the
  item's \<^verbatim>\<open>try\<close>, when \<^verbatim>\<open>outputBase\<close> is not a string; and the reading of
  \<^verbatim>\<open>err.message\<close> in the \<^verbatim>\<open>catch\<close>, when the build threw \<^verbatim>\<open>null\<close> or \<^verbatim>\<open>undefined\<close>.
  (\<^verbatim>\<open>dataFolder\<close> is a string here: \<^verbatim>\<open>resolveSafePath\<close> has taken it.)
\<close>

fun batchLoop ::
  "('fs, 'ld) env \<Rightarrow> ('fs, 'ld) world \<Rightarrow> string \<Rightarrow> string \<Rightarrow> field \<Rightarrow> string list
     \<Rightarrow> (error + itemResult list) \<times> ('fs, 'ld) world" where
  "batchLoop env w templatePath dataFolder outputBase [] = (Inr [], w)"
| "batchLoop env w templatePath dataFolder outputBase (f # rest) =
     (case outputBase of
        NonString received \<Rightarrow> (Inl (invalidPathArgument received), w)
      | Text base \<Rightarrow>
     (case performBuild env w templatePath (itemDataSources dataFolder f)
             (itemOutputName base f) of
        (Inr builtPath, w1) \<Rightarrow>
          (case batchLoop env w1 templatePath dataFolder outputBase rest of
             (Inl e, w2) \<Rightarrow> (Inl e, w2)
           | (Inr results, w2) \<Rightarrow>
               (Inr (\<lparr> file = f, status = ''success'', path = Some builtPath, error = None \<rparr>
                       # results), w2))
      | (Inl err, w1) \<Rightarrow>
          (case message err of
             Inl e \<Rightarrow> (Inl e, w1)
           | Inr m \<Rightarrow>
               (case batchLoop env w1 templatePath dataFolder outputBase rest of
                  (Inl e, w2) \<Rightarrow> (Inl e, w2)
                | (Inr results, w2) \<Rightarrow>
                    (Inr (\<lparr> file = f, status = ''error'', path = None, error = Some m \<rparr>
                            # results), w2)))))"

text \<open>
  The handler of \<^verbatim>\<open>POST /api/build/batch\<close>: \<open>Inr results\<close> is the response
  \<^verbatim>\<open>{ success: true, results }\<close>, \<open>Inl e\<close> the status 500 sent by the outer
  \<^verbatim>\<open>catch\<close>.  \<^verbatim>\<open>dataFolder\<close> and \<^verbatim>\<open>outputBase\<close> are fields of the request body as
  they come; \<^verbatim>\<open>templatePath\<close> is taken as a string (one that is not makes every
  item's build throw inside its \<^verbatim>\<open>try\<close>).
\<close>

definition batchBuild ::
  "('fs, 'ld) env \<Rightarrow> ('fs, 'ld) world \<Rightarrow> string \<Rightarrow> field \<Rightarrow> field
     \<Rightarrow> (error + itemResult list) \<times> ('fs, 'ld) world" where
  "batchBuild env w templatePath dataFolder outputBase =
     (case dataFolder of
        NonString received \<Rightarrow> (Inl (invalidPathArgument received), w)
      | Text folder \<Rightarrow>
     (case resolveSafePath (cwd env) (data (STORAGE env)) folder of
        Inl e \<Rightarrow> (Inl e, w)
      | Inr fullDataDir \<Rightarrow>
          (case readdir env (fs w) fullDataDir of
             Inl m \<Rightarrow> (Inl (ReaddirError m), w)
           | Inr files \<Rightarrow>
               batchLoop env w templatePath folder outputBase
                 (filter (\<lambda>f. endsWith f ''.json'') files))))"

text \<open>
  The builds of a batch in sequence, each as \<open>performBuild\<close> returns or throws it:
  the reference against which the entries of \<^verbatim>\<open>results\<close> are read.  \<open>itemOf\<close> is
  the entry for an outcome whose \<^verbatim>\<open>err.message\<close> can be read.
\<close>

fun buildOutcomes ::
  "('fs, 'ld) env \<Rightarrow> ('fs, 'ld) world \<Rightarrow> string \<Rightarrow> string \<Rightarrow> string \<Rightarrow> string list
     \<Rightarrow> (error + string) list" where
  "buildOutcomes env w templatePath dataFolder outputBase [] = []"
| "buildOutcomes env w templatePath dataFolder outputBase (f # rest) =
     (case performBuild env w templatePath (itemDataSources dataFolder f)
             (itemOutputName outputBase f) of
        (built, w1) \<Rightarrow> built # buildOutcomes env w1 templatePath dataFolder outputBase rest)"

definition readable :: "error + string \<Rightarrow> bool" where
  "readable built =
     (case built of
        Inr builtPath \<Rightarrow> True
      | Inl err \<Rightarrow> (case message err of Inr m \<Rightarrow> True | Inl e \<Rightarrow> False))"

definition itemOf :: "string \<Rightarrow> error + string \<Rightarrow> itemResult" where
  "itemOf f built =
     (case built of
        Inr builtPath \<Rightarrow> \<lparr> file = f, status = ''success'', path = Some builtPath, error = None \<rparr>
      | Inl err \<Rightarrow>
          \<lparr> file = f, status = ''error'', path = None,
            error = (case message err of Inr m \<Rightarrow> Some m | Inl e \<Rightarrow> None) \<rparr>)"

section \<open>Auxiliary notions for the properties\<close>

text \<open>\<^verbatim>\<open>isObject\<close> of lodash on a JSON value: objects and arrays, not \<^verbatim>\<open>null\<close>.\<close>

fun isObject :: "json \<Rightarrow> bool" where
  "isObject (JObj sh ps) = True"
| "isObject v = False"

text \<open>
  The elements of an array keyed from index \<open>n\<close> on.  Merging a later array into an
  earlier one, said on the lists of elements: index by index, the later element is
  merged into the earlier one; the earlier elements beyond the later array's length
  stay.
\<close>

definition indexedFrom :: "nat \<Rightarrow> json list \<Rightarrow> props" where
  "indexedFrom n xs = zip (map index_key [n ..< n + length xs]) xs"

fun mergeElements :: "json list \<Rightarrow> json list \<Rightarrow> json list" where
  "mergeElements xs [] = xs"
| "mergeElements [] (y # ys) = mergedValue None y # mergeElements [] ys"
| "mergeElements (x # xs) (y # ys) = mergedValue (Some x) y # mergeElements xs ys"

text \<open>The errors thrown by the two calls that write: \<^verbatim>\<open>fs.ensureDir\<close> and
  \<^verbatim>\<open>fs.writeFile\<close>.\<close>

fun thrownWhileWriting :: "error \<Rightarrow> bool" where
  "thrownWhileWriting (EnsureDirError m) = True"
| "thrownWhileWriting (WriteFileError m) = True"
| "thrownWhileWriting e = False"

text \<open>
  The export that \<^verbatim>\<open>Component.default || Component.App || Component\<close> selects
  from a module that is not \<^verbatim>\<open>null\<close> or \<^verbatim>\<open>undefined\<close>, said by presence and
  truthiness of the module's own properties.
\<close>

definition ownProps :: "jsval \<Rightarrow> (string \<times> jsval) list" where
  "ownProps v = (case v of VFunction f ps \<Rightarrow> ps | VObject ps \<Rightarrow> ps | _ \<Rightarrow> [])"

definition presentTruthy :: "jsval \<Rightarrow> string \<Rightarrow> jsval option" where
  "presentTruthy Component name =
     (case map_of (ownProps Component) name of
        None \<Rightarrow> None
      | Some v \<Rightarrow> if truthyV v then Some v else None)"

definition selectedExport :: "jsval \<Rightarrow> jsval" where
  "selectedExport Component =
     (case presentTruthy Component ''default'' of
        Some d \<Rightarrow> d
      | None \<Rightarrow>
          (case presentTruthy Component ''App'' of
             Some a \<Rightarrow> a
           | None \<Rightarrow> Component))"

text \<open>
  A small installation on which the general results are run: the program lives in
  \<^verbatim>\<open>/app\<close>; the file system is the list of its text files; the data folder holds
  \<^verbatim>\<open>a.json\<close> and \<^verbatim>\<open>b.json\<close>, a file \<^verbatim>\<open>notes.txt\<close>, and \<^verbatim>\<open>c.json\<close> which does not
  parse; more data files, outside the listed folder's entries, hold arrays and
  nested objects.  The entry \<^verbatim>\<open>link.js\<close> of the template folder is a symbolic link
  to \<^verbatim>\<open>/srv/shared/t.js\<close>.  The loader keeps no compiled code.  A template file
  exports by default a component named by the file's text, which renders to its
  own name; four texts stand for other modules: one that throws \<^verbatim>\<open>null\<close> when
  loaded, one whose value is \<^verbatim>\<open>null\<close>, one with a \<^verbatim>\<open>null\<close> default export
  beside a component \<^verbatim>\<open>Page\<close> exported as \<^verbatim>\<open>App\<close>, and one with a component
  \<^verbatim>\<open>Home\<close> as default export beside it.
\<close>

definition example_module :: "string \<Rightarrow> jsval + jsval" where
  "example_module src =
     (if src = ''throw null'' then Inl VNull
      else if src = ''module.exports = null'' then Inr VNull
      else if src = ''exports.default = null; exports.App = Page'' then
        Inr (VObject [(''default'', VNull), (''App'', VFunction ''Page'' [])])
      else if src = ''exports.default = Home; exports.App = Page'' then
        Inr (VObject [(''default'', VFunction ''Home'' []), (''App'', VFunction ''Page'' [])])
      else Inr (VObject [(''default'', VFunction src [])]))"

definition example_env :: "((string \<times> string) list, unit) env" where
  "example_env =
     \<lparr> cwd = ''/'',
       dirname = ''/app'',
       readJson = (\<lambda>f p.
         if p = ''/app/storage/data/a.json'' then Inr (JObject [(''a'', JNum 1)])
         else if p = ''/app/storage/data/b.json'' then Inr (JObject [(''a'', JNum 2)])
         else if p = ''/app/storage/data/c.json'' then Inl ''Unexpected end of JSON input''
         else if p = ''/app/storage/data/l1.json'' then
           Inr (JObject [(''a'', JArr [JNum 1, JNum 2])])
         else if p = ''/app/storage/data/l2.json'' then Inr (JObject [(''a'', JArr [JNum 3])])
         else if p = ''/app/storage/data/n1.json'' then
           Inr (JObject [(''a'', JObject [(''x'', JNum 1)])])
         else if p = ''/app/storage/data/n2.json'' then
           Inr (JObject [(''a'', JObject [(''y'', JNum 2)])])
         else Inl ''ENOENT: no such file or directory''),
       readdir = (\<lambda>f p.
         if p = ''/app/storage/data'' then Inr [''a.json'', ''notes.txt'', ''c.json'', ''b.json'']
         else Inl ''ENOENT: no such file or directory''),
       resolveFilename = (\<lambda>f p.
         let real = (if p = ''/app/storage/templates/link.js'' then ''/srv/shared/t.js'' else p)
         in case map_of f real of
              None \<Rightarrow> Inl ''Cannot find module''
            | Some src \<Rightarrow> Inr real),
       loadModule = (\<lambda>ld f p.
         case map_of f p of
           None \<Rightarrow> (Inl (ErrorObject ''ENOENT: no such file or directory''), ld)
         | Some src \<Rightarrow> (example_module src, ld)),
       renderToStaticMarkup = (\<lambda>App finalProps.
         case App of
           VFunction name ps \<Rightarrow> Inr name
         | _ \<Rightarrow> Inl (ErrorObject ''Element type is invalid'')),
       minify = (\<lambda>html. Inr html),
       ensureDir = (\<lambda>f p. (None, f)),
       writeFile = (\<lambda>f p content. (None, AList.update p content f)) \<rparr>"

definition example_world :: "((string \<times> string) list, unit) world" where
  "example_world =
     \<lparr> cache = Map.empty, loader = (), fs = [(''/app/storage/templates/t.js'', ''V1'')] \<rparr>"

text \<open>The same installation with other template files: the target of the symbolic
  link, and the four special modules.\<close>

definition shared_world :: "((string \<times> string) list, unit) world" where
  "shared_world =
     \<lparr> cache = Map.empty, loader = (), fs = [(''/srv/shared/t.js'', ''V1'')] \<rparr>"

definition modules_world :: "((string \<times> string) list, unit) world" where
  "modules_world =
     \<lparr> cache = Map.empty, loader = (),
       fs = [(''/app/storage/templates/thrower.js'', ''throw null''),
             (''/app/storage/templates/nothing.js'', ''module.exports = null''),
             (''/app/storage/templates/page.js'',
                ''exports.default = null; exports.App = Page''),
             (''/app/storage/templates/both.js'',
                ''exports.default = Home; exports.App = Page'')] \<rparr>"


section \<open>Properties of the path sandbox\<close>

lemma resolveSafePath_Inr:
  "resolveSafePath wd baseDir userInput = Inr p \<Longrightarrow>
   p = path_resolve wd [path_resolve wd [baseDir], userInput]
   \<and> startsWith p (path_resolve wd [baseDir])"
  by (simp add: resolveSafePath_def Let_def split: if_splits)

lemma insideRoot_startsWith: "insideRoot root p \<Longrightarrow> startsWith p root"
  by (cases p) (auto simp: insideRoot_def startsWith_def isAbsolute_def prefix_def)

lemma resolveSafePath_accepts_inside:
  "insideRoot (path_resolve wd [baseDir])
     (path_resolve wd [path_resolve wd [baseDir], userInput]) \<Longrightarrow>
   resolveSafePath wd baseDir userInput
     = Inr (path_resolve wd [path_resolve wd [baseDir], userInput])"
  by (simp add: resolveSafePath_def Let_def insideRoot_startsWith)

text \<open>
  Claim C1 (the sandbox rejects every input that resolves outside the root, under
  the path-separator boundary).  The code tests \<^verbatim>\<open>startsWith\<close> only: with the data
  root \<^verbatim>\<open>/app/storage/data\<close>, the input \<^verbatim>\<open>../data-other/x.json\<close> resolves to
  \<^verbatim>\<open>/app/storage/data-other/x.json\<close>, a path in a sibling directory and not inside
  the root, and \<open>resolveSafePath\<close> returns it instead of failing.
\<close>

theorem resolveSafePath_sibling_prefix:
  "path_resolve ''/'' [''/app/storage/data''] = ''/app/storage/data''
   \<and> resolveSafePath ''/'' ''/app/storage/data'' ''../data-other/x.json''
       = Inr ''/app/storage/data-other/x.json''
   \<and> \<not> insideRoot ''/app/storage/data'' ''/app/storage/data-other/x.json''"
  by (simp add: resolveSafePath_def path_resolve_def normalizeString_def
      normalize_segments_def normalize_step_def isAbsolute_def startsWith_def insideRoot_def)


section \<open>Properties of the batch build\<close>

text \<open>
  Claim C9 (the per-item output path is \<^verbatim>\<open>outputBase\<close> joined with the file's base
  name, extension stripped).  \<^verbatim>\<open>file.replace('.json', '')\<close> removes the first
  occurrence of \<^verbatim>\<open>.json\<close>, which need not be the extension: for the data file
  \<^verbatim>\<open>a.jsonb.json\<close> and the output base \<^verbatim>\<open>out\<close> the item is built to
  \<^verbatim>\<open>out/ab.json\<close>, where the name without its extension gives \<^verbatim>\<open>out/a.jsonb\<close>.
\<close>

theorem itemOutputName_inner_json:
  "endsWith ''a.jsonb.json'' ''.json''
   \<and> itemOutputName ''out'' ''a.jsonb.json'' = ''out/ab.json''
   \<and> path_join [''out'', ''a.jsonb''] = ''out/a.jsonb''"
  by (simp add: endsWith_def suffix_to_prefix itemOutputName_def path_join_def
      path_normalize_def normalizeString_def normalize_segments_def normalize_step_def
      isAbsolute_def)


section \<open>Properties of the merge\<close>

text \<open>Index keys: the decimal numeral of an index determines the index.\<close>

lemma digit_inj: "i < 10 \<Longrightarrow> j < 10 \<Longrightarrow> digit i = digit j \<Longrightarrow> i = j"
proof -
  assume a: "i < 10" "j < 10" "digit i = digit j"
  have d: "distinct ''0123456789''" by simp
  have "length ''0123456789'' = 10" by simp
  with a d show ?thesis
    unfolding digit_def by (metis nth_eq_iff_index_eq)
qed

lemma index_key_length: "length (index_key i) = 1 \<longleftrightarrow> i < 10"
proof (induction i rule: index_key.induct)
  case (1 i)
  show ?case
  proof (cases "i < 10")
    case True
    then show ?thesis by (simp add: index_key.simps)
  next
    case False
    then have "index_key i = index_key (i div 10) @ [digit (i mod 10)]"
      by (subst index_key.simps) simp
    moreover have "index_key (i div 10) \<noteq> []"
      by (subst index_key.simps) simp
    ultimately show ?thesis using False by (cases "index_key (i div 10)") auto
  qed
qed

lemma index_key_inj: "index_key i = index_key j \<Longrightarrow> i = j"
proof (induction i arbitrary: j rule: index_key.induct)
  case (1 i)
  show ?case
  proof (cases "i < 10")
    case True
    then have "length (index_key j) = 1" using "1.prems" index_key_length[of i] by simp
    then have "j < 10" using index_key_length[of j] by simp
    with True "1.prems" show ?thesis by (simp add: index_key.simps digit_inj)
  next
    case False
    then have "\<not> length (index_key j) = 1" using "1.prems" index_key_length[of i] by simp
    then have j: "\<not> j < 10" using index_key_length[of j] by simp
    have ei: "index_key i = index_key (i div 10) @ [digit (i mod 10)]"
      using False by (subst index_key.simps) simp
    have ej: "index_key j = index_key (j div 10) @ [digit (j mod 10)]"
      using j by (subst index_key.simps) simp
    from ei ej "1.prems" have a: "index_key (i div 10) = index_key (j div 10)"
      and b: "digit (i mod 10) = digit (j mod 10)" by simp_all
    from "1.IH"[OF False a] have "i div 10 = j div 10" .
    moreover from b have "i mod 10 = j mod 10" by (simp add: digit_inj)
    ultimately show ?thesis by (metis div_mult_mod_eq)
  qed
qed

lemma indexedFrom_Nil [simp]: "indexedFrom n [] = []"
  by (simp add: indexedFrom_def)

lemma indexedFrom_Cons [simp]:
  "indexedFrom n (x # xs) = (index_key n, x) # indexedFrom (Suc n) xs"
proof -
  have "n < n + length (x # xs)" by simp
  then have "[n ..< n + length (x # xs)] = n # [Suc n ..< n + length (x # xs)]"
    by (rule upt_conv_Cons)
  moreover have "n + length (x # xs) = Suc n + length xs" by simp
  ultimately have "[n ..< n + length (x # xs)] = n # [Suc n ..< Suc n + length xs]"
    by (simp only:)
  then show ?thesis by (simp only: indexedFrom_def list.map zip_Cons_Cons)
qed

lemma indexed_indexedFrom: "indexed xs = indexedFrom 0 xs"
  by (simp add: indexed_def indexedFrom_def)

lemma index_key_further: "index_key n \<noteq> index_key (n + length (x # xs))"
  using index_key_inj[of n "n + length (x # xs)"] by auto

lemma indexedFrom_update_end:
  "AList.update (index_key (n + length xs)) v (indexedFrom n xs) = indexedFrom n (xs @ [v])"
proof (induction xs arbitrary: n)
  case Nil
  then show ?case by simp
next
  case (Cons x xs)
  with index_key_further[of n x xs] Cons[of "Suc n"] show ?case by simp
qed

lemma indexedFrom_update_mid:
  "AList.update (index_key (n + length pre)) v (indexedFrom n (pre @ x # xs))
     = indexedFrom n (pre @ v # xs)"
proof (induction pre arbitrary: n)
  case Nil
  then show ?case by simp
next
  case (Cons p pre)
  with index_key_further[of n p pre] Cons[of "Suc n"] show ?case by simp
qed

lemma indexedFrom_lookup_mid:
  "map_of (indexedFrom n (pre @ x # xs)) (index_key (n + length pre)) = Some x"
proof (induction pre arbitrary: n)
  case Nil
  then show ?case by simp
next
  case (Cons p pre)
  with index_key_further[of n p pre] Cons[of "Suc n"] show ?case by simp
qed

lemma indexedFrom_lookup_end:
  "map_of (indexedFrom n xs) (index_key (n + length xs)) = None"
proof (induction xs arbitrary: n)
  case Nil
  then show ?case by simp
next
  case (Cons x xs)
  with index_key_further[of n x xs] Cons[of "Suc n"] show ?case by simp
qed

text \<open>
  \<open>baseMerge\<close> of an array's elements into an array's elements: the elements
  before the current index are done, the others are merged index by index.
\<close>

lemma baseMerge_indexed:
  "baseMerge (indexedFrom 0 (pre @ xs)) (indexedFrom (length pre) ys)
     = indexedFrom 0 (pre @ mergeElements xs ys)"
proof (induction ys arbitrary: pre xs)
  case Nil
  then show ?case by simp
next
  case (Cons y ys)
  show ?case
  proof (cases xs)
    case Nil
    have "baseMerge (indexedFrom 0 pre) (indexedFrom (length pre) (y # ys))
        = baseMerge (indexedFrom 0 ((pre @ [mergedValue None y]) @ []))
            (indexedFrom (length (pre @ [mergedValue None y])) ys)"
      using indexedFrom_lookup_end[of 0 pre] indexedFrom_update_end[of 0 pre]
      by simp
    also have "\<dots> = indexedFrom 0 ((pre @ [mergedValue None y]) @ mergeElements [] ys)"
      by (rule Cons.IH)
    finally show ?thesis using Nil by simp
  next
    case (Cons x xs')
    have "baseMerge (indexedFrom 0 (pre @ x # xs')) (indexedFrom (length pre) (y # ys))
        = baseMerge (indexedFrom 0 ((pre @ [mergedValue (Some x) y]) @ xs'))
            (indexedFrom (length (pre @ [mergedValue (Some x) y])) ys)"
      using indexedFrom_lookup_mid[of 0 pre x xs'] indexedFrom_update_mid[of 0 pre _ x xs']
      by simp
    also have "\<dots> = indexedFrom 0 ((pre @ [mergedValue (Some x) y]) @ mergeElements xs' ys)"
      by (rule Cons.IH)
    finally show ?thesis using Cons by simp
  qed
qed

lemma mergedValue_arrays:
  "mergedValue (Some (JArr xs)) (JArr ys) = JArr (mergeElements xs ys)"
  using baseMerge_indexed[of "[]" xs ys]
  by (simp add: JArr_def indexed_indexedFrom)

lemma mergedValue_scalar: "\<not> isObject v \<Longrightarrow> mergedValue ov v = v"
  by (cases v) simp_all

lemma mergeElements_scalars:
  "\<forall>y \<in> set ys. \<not> isObject y \<Longrightarrow> mergeElements xs ys = ys @ drop (length ys) xs"
  by (induction xs ys rule: mergeElements.induct) (simp_all add: mergedValue_scalar)

text \<open>What \<open>baseMerge\<close> leaves under each key, for a source without repeated keys.\<close>

lemma baseMerge_lookup:
  "distinct (map fst src) \<Longrightarrow>
   map_of (baseMerge obj src) k =
     (case map_of src k of
        None \<Rightarrow> map_of obj k
      | Some v \<Rightarrow> Some (mergedValue (map_of obj k) v))"
proof (induction src arbitrary: obj)
  case Nil
  then show ?case by simp
next
  case (Cons p src)
  obtain k0 v0 where p: "p = (k0, v0)" by (cases p)
  from Cons.prems p have d: "distinct (map fst src)" and n: "k0 \<notin> fst ` set src" by auto
  from n have none: "map_of src k0 = None" by (simp add: map_of_eq_None_iff)
  show ?case
    using Cons.IH[OF d, of "AList.update k0 (mergedValue (map_of obj k0) v0) obj"] p none
    by (auto simp: update_conv' split: option.splits)
qed

text \<open>The loop of \<open>resolveData\<close> folds \<open>merge\<close> over the values of the sources.\<close>

lemma resolveData_foldl:
  "map (sourceValue env f) srcs = map (\<lambda>v. Inr (Some v)) vs \<Longrightarrow>
   resolveData env f finalProps srcs = Inr (foldl merge finalProps vs)"
proof (induction srcs arbitrary: vs finalProps)
  case Nil
  then show ?case by simp
next
  case (Cons src srcs)
  then obtain v vs' where vs: "vs = v # vs'" by (cases vs) auto
  with Cons.prems have 1: "sourceValue env f src = Inr (Some v)"
    and 2: "map (sourceValue env f) srcs = map (\<lambda>v. Inr (Some v)) vs'" by auto
  show ?case using Cons.IH[OF 2] 1 vs by simp
qed

text \<open>The example installation, evaluated.\<close>

lemmas path_eval = resolveSafePath_def path_resolve_def normalizeString_def
  normalize_segments_def normalize_step_def isAbsolute_def startsWith_def
  path_join_def path_normalize_def

lemmas json_eval = merge_def JObject_def JArr_def indexed_def index_key.simps digit_def

lemma example_STORAGE:
  "STORAGE example_env =
     \<lparr> templates = ''/app/storage/templates'', data = ''/app/storage/data'',
       output = ''/app/storage/output'', config = ''/app/storage/config'' \<rparr>"
  by (simp add: STORAGE_def example_env_def path_eval)

lemma example_cwd: "cwd example_env = ''/''"
  by (simp add: example_env_def)

lemma example_data_path:
  "name \<in> {''a.json'', ''b.json'', ''c.json'', ''l1.json'', ''l2.json'', ''n1.json'', ''n2.json''} \<Longrightarrow>
   resolveSafePath ''/'' ''/app/storage/data'' name = Inr (''/app/storage/data/'' @ name)"
  by (auto simp: path_eval)

lemma example_sourceValue:
  "sourceValue example_env f \<lparr> filename = Some ''l1.json'', key = None \<rparr>
     = Inr (Some (JObject [(''a'', JArr [JNum 1, JNum 2])]))"
  "sourceValue example_env f \<lparr> filename = Some ''l2.json'', key = None \<rparr>
     = Inr (Some (JObject [(''a'', JArr [JNum 3])]))"
  "sourceValue example_env f \<lparr> filename = Some ''a.json'', key = None \<rparr>
     = Inr (Some (JObject [(''a'', JNum 1)]))"
  "sourceValue example_env f \<lparr> filename = Some ''b.json'', key = None \<rparr>
     = Inr (Some (JObject [(''a'', JNum 2)]))"
  "sourceValue example_env f \<lparr> filename = Some ''n1.json'', key = None \<rparr>
     = Inr (Some (JObject [(''a'', JObject [(''x'', JNum 1)])]))"
  "sourceValue example_env f \<lparr> filename = Some ''n2.json'', key = None \<rparr>
     = Inr (Some (JObject [(''a'', JObject [(''y'', JNum 2)])]))"
  "sourceValue example_env f \<lparr> filename = Some ''c.json'', key = None \<rparr>
     = Inl (ReadJsonError ''Unexpected end of JSON input'')"
  by (simp_all add: sourceValue_def example_STORAGE example_cwd example_data_path)
     (simp_all add: example_env_def)


text \<open>Ordinary objects and parsed sources: index keys are ordinary, a parsed value
  is ordinary, and the merge of a parsed source into an ordinary object is ordinary.\<close>

lemma digit_in: "i < 10 \<Longrightarrow> digit i \<in> set ''0123456789''"
  unfolding digit_def by (rule nth_mem) simp

lemma index_key_hd: "index_key i \<noteq> [] \<and> hd (index_key i) \<in> set ''0123456789''"
proof (induction i rule: index_key.induct)
  case (1 i)
  show ?case
  proof (cases "i < 10")
    case True
    then show ?thesis using digit_in[of i] by (subst (1 2) index_key.simps) simp
  next
    case False
    with 1 show ?thesis by (subst (1 2) index_key.simps) simp
  qed
qed

lemma index_key_not_inherited: "\<not> inheritedName (index_key i)"
proof
  assume "inheritedName (index_key i)"
  then have "index_key i \<in> set prototypeNames" by (simp add: inheritedName_def)
  moreover have "\<forall>n \<in> set prototypeNames. n = [] \<or> hd n \<notin> set ''0123456789''"
    by (simp add: prototypeNames_def)
  ultimately show False using index_key_hd[of i] by blast
qed

lemma distinct_index_keys: "distinct (map index_key [m ..< n])"
  by (simp add: distinct_map inj_on_def) (metis index_key_inj)

lemma index_keys_ordinary:
  assumes "map fst ps = map index_key [0 ..< length ps]" and "p \<in> set ps"
  shows "\<not> inheritedName (fst p)"
proof -
  from assms(2) have "fst p \<in> set (map fst ps)" by simp
  then have "fst p \<in> set (map index_key [0 ..< length ps])" using assms(1) by simp
  then obtain i where "fst p = index_key i" by auto
  then show ?thesis by (simp add: index_key_not_inherited)
qed

lemma parsed_ordinary: "parsed v \<Longrightarrow> ordinary v"
proof (induction v rule: parsed.induct)
  case (1 ps)
  then show ?case by auto
next
  case (2 ps)
  have "distinct (map fst ps)" using 2(2) distinct_index_keys[of 0 "length ps"] by simp
  moreover have "\<forall>p \<in> set ps. \<not> inheritedName (fst p) \<and> ordinary (snd p)"
    using 2 index_keys_ordinary[of ps] by auto
  ultimately show ?case by simp
qed simp_all

text \<open>The properties of a parsed source, as the loop of \<open>baseMerge\<close> meets them.\<close>

lemma parsed_props:
  "parsed (JObj sh ps) \<Longrightarrow> p \<in> set ps \<Longrightarrow> \<not> inheritedName (fst p) \<and> parsed (snd p)"
  by (cases sh) (auto dest: index_keys_ordinary)

lemma set_update_subset: "set (AList.update k v al) \<subseteq> insert (k, v) (set al)"
  by (induction al) auto

lemma ordinary_update:
  assumes "ordinaryProps object" and "\<not> inheritedName k" and "ordinary v"
  shows "ordinaryProps (AList.update k v object)"
proof -
  have "distinct (map fst (AList.update k v object))"
    using assms(1) by (simp add: ordinaryProps_def distinct_update)
  moreover have "\<forall>p \<in> set (AList.update k v object). \<not> inheritedName (fst p) \<and> ordinary (snd p)"
  proof
    fix p assume "p \<in> set (AList.update k v object)"
    then have "p \<in> set object \<or> p = (k, v)"
      using set_update_subset[of k v object] by auto
    then show "\<not> inheritedName (fst p) \<and> ordinary (snd p)"
      using assms by (auto simp: ordinaryProps_def)
  qed
  ultimately show ?thesis by (simp add: ordinaryProps_def)
qed

lemma ordinary_lookup: "ordinaryProps object \<Longrightarrow> map_of object k = Some v \<Longrightarrow> ordinary v"
  by (auto simp: ordinaryProps_def dest: map_of_SomeD)

lemma ordinary_baseMerge_step:
  assumes "\<And>k v ov. (k, v) \<in> set src \<Longrightarrow> (\<forall>x. ov = Some x \<longrightarrow> ordinary x)
             \<Longrightarrow> ordinary (mergedValue ov v)"
    and "\<forall>p \<in> set src. \<not> inheritedName (fst p)"
    and "ordinaryProps object"
  shows "ordinaryProps (baseMerge object src)"
  using assms
proof (induction src arbitrary: object)
  case Nil
  then show ?case by simp
next
  case (Cons p src)
  obtain k v where p: "p = (k, v)" by (cases p)
  have "ordinary (mergedValue (map_of object k) v)"
    using Cons.prems(1)[of k v "map_of object k"] Cons.prems(3) p
    by (auto dest: ordinary_lookup)
  then have "ordinaryProps (AList.update k (mergedValue (map_of object k) v) object)"
    using Cons.prems p by (simp add: ordinary_update)
  moreover have "ordinary (mergedValue ov' v')"
    if "(k', v') \<in> set src" "\<forall>x. ov' = Some x \<longrightarrow> ordinary x" for k' v' ov'
    using Cons.prems(1)[of k' v' ov'] that by simp
  moreover have "\<forall>p \<in> set src. \<not> inheritedName (fst p)" using Cons.prems(2) by simp
  ultimately have
    "ordinaryProps (baseMerge (AList.update k (mergedValue (map_of object k) v) object) src)"
    using Cons.IH by simp
  then show ?case by (simp add: p)
qed

lemma ordinary_mergedValue:
  "parsed v \<Longrightarrow> (\<forall>x. ov = Some x \<longrightarrow> ordinary x) \<Longrightarrow> ordinary (mergedValue ov v)"
proof (induction v arbitrary: ov)
  case (JObj sh ps)
  have el: "\<And>k v ov. (k, v) \<in> set ps \<Longrightarrow> (\<forall>x. ov = Some x \<longrightarrow> ordinary x)
             \<Longrightarrow> ordinary (mergedValue ov v)"
  proof -
    fix k v ov assume m: "(k, v) \<in> set ps" and o: "\<forall>x. ov = Some x \<longrightarrow> ordinary x"
    have "parsed v" using parsed_props[OF JObj.prems(1) m] by simp
    moreover have "v \<in> Basic_BNFs.snds (k, v)" by simp
    ultimately show "ordinary (mergedValue ov v)" using JObj.IH[OF m _ _ o] by simp
  qed
  have keys: "\<forall>p \<in> set ps. \<not> inheritedName (fst p)"
    using parsed_props[OF JObj.prems(1)] by simp
  have e: "ordinaryProps []" by (simp add: ordinaryProps_def)
  have fresh: "ordinaryProps (baseMerge [] ps)"
    by (rule ordinary_baseMerge_step[OF el keys e])
  have into: "ordinaryProps (baseMerge obj ps)" if "ordinaryProps obj" for obj
    by (rule ordinary_baseMerge_step[OF el keys that])
  show ?case
  proof (cases ov)
    case None
    with fresh show ?thesis by (cases sh) (simp_all add: ordinaryProps_def)
  next
    case (Some x)
    then have ox: "ordinary x" using JObj.prems(2) by simp
    show ?thesis
    proof (cases x)
      case (JObj sh' obj)
      then have "ordinaryProps obj" using ox by (simp add: ordinaryProps_def)
      from into[OF this] fresh Some JObj show ?thesis
        by (cases sh; cases sh') (simp_all add: ordinaryProps_def)
    qed (use fresh Some in \<open>cases sh; simp add: ordinaryProps_def\<close>)+
  qed
qed simp_all

lemma indexed_keys: "p \<in> set (indexed xs) \<Longrightarrow> \<exists>i. fst p = index_key i"
proof -
  assume m: "p \<in> set (indexed xs)"
  obtain k v where p: "p = (k, v)" by (cases p)
  with m have "k \<in> set (map index_key [0 ..< length xs])"
    unfolding indexed_def by (auto dest: set_zip_leftD)
  then show ?thesis using p by auto
qed

lemma ordinary_merge:
  assumes "ordinaryProps object" and "parsed source"
  shows "ordinaryProps (merge object source)"
proof -
  have el: "\<And>k v ov. (k, v) \<in> set (sourceProps source) \<Longrightarrow> (\<forall>x. ov = Some x \<longrightarrow> ordinary x)
             \<Longrightarrow> ordinary (mergedValue ov v)"
  proof -
    fix k v ov
    assume m: "(k, v) \<in> set (sourceProps source)" and o: "\<forall>x. ov = Some x \<longrightarrow> ordinary x"
    have "parsed v"
    proof (cases source)
      case (JObj sh ps)
      with m assms(2) parsed_props[of sh ps "(k, v)"] show ?thesis by simp
    next
      case (JStr s)
      with m have "v \<in> set (map (\<lambda>c. JStr [c]) s)"
        by (auto simp: indexed_def dest: set_zip_rightD)
      then show ?thesis by auto
    qed (use m in simp_all)
    then show "ordinary (mergedValue ov v)" using o by (rule ordinary_mergedValue)
  qed
  have keys: "\<forall>p \<in> set (sourceProps source). \<not> inheritedName (fst p)"
  proof (cases source)
    case (JObj sh ps)
    with assms(2) parsed_props[of sh ps] show ?thesis by simp
  next
    case (JStr s)
    then show ?thesis using indexed_keys index_key_not_inherited by fastforce
  qed simp_all
  show ?thesis unfolding merge_def by (rule ordinary_baseMerge_step[OF el keys assms(1)])
qed

lemma ordinary_foldl_merge:
  "ordinaryProps finalProps \<Longrightarrow> (\<forall>v \<in> set vs. parsed v) \<Longrightarrow>
     ordinaryProps (foldl merge finalProps vs)"
  by (induction vs arbitrary: finalProps) (simp_all add: ordinary_merge)

lemma example_not_inherited:
  "\<not> inheritedName ''a''" "\<not> inheritedName ''b''" "\<not> inheritedName ''x''"
  "\<not> inheritedName ''y''" "\<not> inheritedName ''0''" "\<not> inheritedName ''1''"
  by (simp_all add: inheritedName_def prototypeNames_def)

lemma example_arrays:
  "JArr [u] = JObj ArrayObject [(''0'', u)]"
  "JArr [u, v] = JObj ArrayObject [(''0'', u), (''1'', v)]"
  "index_key 0 = ''0''" "index_key 1 = ''1''" "index_key (Suc 0) = ''1''"
  by (simp_all add: JArr_def indexed_def index_key.simps digit_def upt_rec)









section \<open>Properties of a single build\<close>

lemma clearCache_fs [simp]: "fs (clearCache env w) = fs w"
  by (simp add: clearCache_def)

lemma performBuild_unfold:
  "performBuild env w templatePath dataSources outputRelPath =
     (case resolveData env (fs w) [] dataSources of
        Inl e \<Rightarrow> (Inl e, clearCache env w)
      | Inr finalProps \<Rightarrow>
     (case resolveSafePath (cwd env) (templates (STORAGE env)) templatePath of
        Inl e \<Rightarrow> (Inl e, clearCache env w)
      | Inr fullTemplatePath \<Rightarrow>
     (case require env (clearCache env w) fullTemplatePath of
        (Inl e, w2) \<Rightarrow> (Inl e, w2)
      | (Inr Component, w2) \<Rightarrow>
          renderAndWrite env w2 Component finalProps outputRelPath)))"
  by (simp add: performBuild_def Let_def)

lemma require_fs: "require env w p = (r, w') \<Longrightarrow> fs w' = fs w"
  by (auto simp: require_def split: option.splits sum.splits prod.splits)

lemma renderAndWrite_Inl:
  "renderAndWrite env w Component finalProps outputRelPath = (Inl e, w') \<Longrightarrow>
   \<not> thrownWhileWriting e \<Longrightarrow> w' = w"
  by (auto simp: renderAndWrite_def split: sum.splits prod.splits option.splits)

lemma renderAndWrite_Inr:
  "renderAndWrite env w Component finalProps outputRelPath = (Inr r, w') \<Longrightarrow>
   r = finalPathOf outputRelPath"
  by (auto simp: renderAndWrite_def split: sum.splits prod.splits option.splits)

text \<open>Builds of the example installation, evaluated.\<close>

lemma example_fields:
  "cwd example_env = ''/''"
  "resolveFilename example_env = (\<lambda>f p.
         let real = (if p = ''/app/storage/templates/link.js'' then ''/srv/shared/t.js'' else p)
         in case map_of f real of
              None \<Rightarrow> Inl ''Cannot find module''
            | Some src \<Rightarrow> Inr real)"
  "loadModule example_env = (\<lambda>ld f p.
         case map_of f p of
           None \<Rightarrow> (Inl (ErrorObject ''ENOENT: no such file or directory''), ld)
         | Some src \<Rightarrow> (example_module src, ld))"
  "renderToStaticMarkup example_env = (\<lambda>App finalProps.
         case App of
           VFunction name ps \<Rightarrow> Inr name
         | _ \<Rightarrow> Inl (ErrorObject ''Element type is invalid''))"
  "minify example_env = (\<lambda>html. Inr html)"
  "ensureDir example_env = (\<lambda>f p. (None, f))"
  "writeFile example_env = (\<lambda>f p content. (None, AList.update p content f))"
  by (simp_all add: example_env_def)

lemma example_template_path:
  "resolveSafePath ''/'' ''/app/storage/templates'' ''t.js'' = Inr ''/app/storage/templates/t.js''"
  "resolveSafePath ''/'' ''/app/storage/templates'' ''missing.js''
     = Inr ''/app/storage/templates/missing.js''"
  by (simp_all add: path_eval)

lemma example_output_path:
  "resolveSafePath ''/'' ''/app/storage/output'' ''reports/index.html''
     = Inr ''/app/storage/output/reports/index.html''"
  by (simp add: path_eval)

lemma example_finalPath: "finalPathOf ''reports'' = ''reports/index.html''"
  by (simp add: finalPathOf_def endsWith_def suffix_to_prefix path_eval)

lemma clearCache_empty: "cache w = Map.empty \<Longrightarrow> clearCache env w = w"
  by (cases w) (simp add: clearCache_def fun_eq_iff)

lemma example_clearCache: "clearCache example_env example_world = example_world"
  by (rule clearCache_empty) (simp add: example_world_def)

lemma example_build_missing:
  "performBuild example_env example_world ''missing.js'' [] ''reports''
     = (Inl (RequireError (ErrorObject ''Cannot find module'')), example_world)"
  unfolding performBuild_unfold example_clearCache
  by (simp add: example_STORAGE example_fields example_template_path
      require_def example_world_def example_module_def)

lemma example_build_reports:
  "performBuild example_env example_world ''t.js'' [] ''reports''
     = (Inr ''reports/index.html'',
        \<lparr> cache = [''/app/storage/templates/t.js'' \<mapsto> VObject [(''default'', VFunction ''V1'' [])]],
          loader = (),
          fs = [(''/app/storage/templates/t.js'', ''V1''),
                (''/app/storage/output/reports/index.html'', ''V1'')] \<rparr>)"
  unfolding performBuild_unfold example_clearCache
  by (simp add: example_STORAGE example_fields example_template_path
      require_def example_module_def renderAndWrite_def resolveExport_def
      example_finalPath example_output_path example_world_def path_dirname_def)

lemma example_escape_path:
  "resolveSafePath ''/'' ''/app/storage/output'' ''../../x.html'' = Inl SecurityViolation"
  by (simp add: path_eval)

lemma example_build_escape:
  "performBuild example_env example_world ''t.js'' [] ''../../x.html''
     = (Inl SecurityViolation,
        \<lparr> cache = [''/app/storage/templates/t.js'' \<mapsto> VObject [(''default'', VFunction ''V1'' [])]],
          loader = (),
          fs = [(''/app/storage/templates/t.js'', ''V1'')] \<rparr>)"
  unfolding performBuild_unfold example_clearCache
  by (simp add: example_STORAGE example_fields example_template_path
      require_def example_module_def renderAndWrite_def resolveExport_def finalPathOf_def endsWith_def
      suffix_to_prefix example_escape_path example_world_def)

text \<open>
  Claim C6: a build that fails at a step before the output is written (its error
  is thrown by a call other than \<^verbatim>\<open>fs.ensureDir\<close> and \<^verbatim>\<open>fs.writeFile\<close>: data
  resolution, template load, export resolution, render, minify or a sandbox check)
  leaves the file system, and so the output tree, as it was.
\<close>

theorem failed_build_keeps_files:
  "performBuild env w templatePath dataSources outputRelPath = (Inl e, w') \<Longrightarrow>
   \<not> thrownWhileWriting e \<Longrightarrow> fs w' = fs w"
proof -
  assume b: "performBuild env w templatePath dataSources outputRelPath = (Inl e, w')"
    and e: "\<not> thrownWhileWriting e"
  show ?thesis
  proof (cases "resolveData env (fs w) [] dataSources")
    case (Inl a)
    with b show ?thesis by (auto simp: performBuild_unfold)
  next
    case (Inr finalProps)
    show ?thesis
    proof (cases "resolveSafePath (cwd env) (templates (STORAGE env)) templatePath")
      case (Inl a)
      with b Inr show ?thesis by (auto simp: performBuild_unfold)
    next
      case (Inr fullTemplatePath)
      obtain r w2 where q: "require env (clearCache env w) fullTemplatePath = (r, w2)"
        by (cases "require env (clearCache env w) fullTemplatePath")
      then have f2: "fs w2 = fs w" using require_fs[OF q] by simp
      show ?thesis
      proof (cases r)
        case (Inl a)
        with b q \<open>resolveData env (fs w) [] dataSources = Inr finalProps\<close> Inr f2
        show ?thesis by (auto simp: performBuild_unfold)
      next
        case (Inr Component)
        with b q \<open>resolveData env (fs w) [] dataSources = Inr finalProps\<close>
          \<open>resolveSafePath (cwd env) (templates (STORAGE env)) templatePath = Inr fullTemplatePath\<close>
        have "renderAndWrite env w2 Component finalProps outputRelPath = (Inl e, w')"
          by (simp add: performBuild_unfold)
        from renderAndWrite_Inl[OF this e] f2 show ?thesis by simp
      qed
    qed
  qed
qed

theorem failed_build_keeps_files_witness:
  "fst (performBuild example_env example_world ''t.js'' [] ''../../x.html'') = Inl SecurityViolation
   \<and> \<not> thrownWhileWriting SecurityViolation
   \<and> fs (snd (performBuild example_env example_world ''t.js'' [] ''../../x.html''))
       = fs example_world
   \<and> fst (performBuild example_env example_world ''missing.js'' [] ''reports'')
       = Inl (RequireError (ErrorObject ''Cannot find module''))
   \<and> fs (snd (performBuild example_env example_world ''missing.js'' [] ''reports''))
       = fs example_world"
  using failed_build_keeps_files[OF example_build_escape]
    failed_build_keeps_files[OF example_build_missing]
  by (simp add: example_build_escape example_build_missing)

text \<open>The output path.\<close>

lemma performBuild_Inr:
  "performBuild env w templatePath dataSources outputRelPath = (Inr r, w') \<Longrightarrow>
   r = finalPathOf outputRelPath"
  by (auto simp: performBuild_unfold split: sum.splits prod.splits dest: renderAndWrite_Inr)

lemma split_slash_nonempty [simp]: "split_slash s \<noteq> []"
  by (induction s) (auto split: list.splits)

lemma split_slash_append:
  "split_slash (a @ CHR ''/'' # b) = split_slash a @ split_slash b"
  by (induction a) (auto split: list.splits)

lemma join_slash_snoc: "s \<noteq> [] \<Longrightarrow> join_slash (xs @ [s]) \<noteq> []"
  by (induction xs rule: join_slash.induct) auto

lemma normalize_segments_index:
  "normalize_segments b (p @ ''/index.html'') = normalize_segments b p @ [''index.html'']"
  by (simp add: normalize_segments_def split_slash_append normalize_step_def)

lemma path_join_index:
  "\<not> isAbsolute p \<Longrightarrow>
   path_join [p, ''index.html''] = join_slash (normalize_segments True p @ [''index.html''])"
proof (cases "p = []")
  case True
  then show ?thesis by (simp add: path_eval)
next
  case False
  assume r: "\<not> isAbsolute p"
  let ?j = "p @ ''/index.html''"
  have j: "join_slash [p, ''index.html''] = ?j" by simp
  have a: "\<not> isAbsolute ?j" using r False by (cases p) (auto simp: isAbsolute_def)
  have n: "normalizeString ?j True = join_slash (normalize_segments True p @ [''index.html''])"
    unfolding normalizeString_def normalize_segments_index ..
  have ne: "join_slash (normalize_segments True p @ [''index.html'']) \<noteq> []"
    by (rule join_slash_snoc) simp
  have "path_normalize ?j = join_slash (normalize_segments True p @ [''index.html''])"
    unfolding path_normalize_def Let_def using a n ne by simp
  with False j show ?thesis by (simp add: path_join_def)
qed

text \<open>
  Claim C7: for an output path that does not end with \<^verbatim>\<open>.html\<close>, the writer appends
  \<^verbatim>\<open>index.html\<close> inside it (for a relative path, the result is the normalized
  path's segments followed by the segment \<^verbatim>\<open>index.html\<close>; \<^verbatim>\<open>reports\<close> becomes
  \<^verbatim>\<open>reports/index.html\<close>); a path that ends with \<^verbatim>\<open>.html\<close> is left unchanged; a
  successful build returns this normalized relative path.
\<close>

theorem output_path_normalized:
  "(\<not> endsWith p ''.html'' \<longrightarrow> finalPathOf p = path_join [p, ''index.html''])
   \<and> (\<not> endsWith p ''.html'' \<and> \<not> isAbsolute p \<longrightarrow>
        finalPathOf p = join_slash (normalize_segments True p @ [''index.html'']))
   \<and> (endsWith p ''.html'' \<longrightarrow> finalPathOf p = p)
   \<and> finalPathOf ''reports'' = ''reports/index.html''
   \<and> finalPathOf ''reports/page.html'' = ''reports/page.html''
   \<and> (performBuild env w templatePath dataSources p = (Inr r, w') \<longrightarrow> r = finalPathOf p)"
proof (intro conjI impI)
  show "finalPathOf p = path_join [p, ''index.html'']" if "\<not> endsWith p ''.html''"
    using that by (simp add: finalPathOf_def)
  show "finalPathOf p = join_slash (normalize_segments True p @ [''index.html''])"
    if "\<not> endsWith p ''.html'' \<and> \<not> isAbsolute p"
    using that by (simp add: finalPathOf_def path_join_index)
  show "finalPathOf p = p" if "endsWith p ''.html''"
    using that by (simp add: finalPathOf_def)
  show "finalPathOf ''reports'' = ''reports/index.html''"
    by (simp add: finalPathOf_def endsWith_def suffix_to_prefix path_eval)
  show "finalPathOf ''reports/page.html'' = ''reports/page.html''"
    by (simp add: finalPathOf_def endsWith_def suffix_to_prefix)
  show "r = finalPathOf p" if "performBuild env w templatePath dataSources p = (Inr r, w')"
    using that by (rule performBuild_Inr)
qed

theorem output_path_normalized_witness:
  "\<not> endsWith ''reports'' ''.html''
   \<and> \<not> isAbsolute ''reports''
   \<and> finalPathOf ''reports'' = ''reports/index.html''
   \<and> endsWith ''reports/page.html'' ''.html''
   \<and> finalPathOf ''reports/page.html'' = ''reports/page.html''
   \<and> fst (performBuild example_env example_world ''t.js'' [] ''reports'') = Inr (finalPathOf ''reports'')"
  using output_path_normalized[where p="''reports''" and env=example_env and w=example_world
      and templatePath="''t.js''" and dataSources="[]" and r="''reports/index.html''"]
    output_path_normalized[where p="''reports/page.html''", THEN conjunct2, THEN conjunct2, THEN conjunct1]
    example_build_reports
  by (simp add: endsWith_def suffix_to_prefix isAbsolute_def example_finalPath)


section \<open>Properties of the export resolution\<close>

text \<open>The build from the loaded module on, by what the collaborators answer.\<close>

lemma performBuild_component:
  assumes "resolveData env (fs w) [] dataSources = Inr finalProps"
    and "resolveSafePath (cwd env) (templates (STORAGE env)) templatePath = Inr fullTemplatePath"
    and "require env (clearCache env w) fullTemplatePath = (Inr Component, w2)"
  shows "performBuild env w templatePath dataSources outputRelPath
           = renderAndWrite env w2 Component finalProps outputRelPath"
  using assms by (simp add: performBuild_unfold)

lemma renderAndWrite_no_export:
  "resolveExport Component = Inl e \<Longrightarrow>
   renderAndWrite env w Component finalProps outputRelPath = (Inl e, w)"
  by (simp add: renderAndWrite_def)

lemma renderAndWrite_render_throws:
  "resolveExport Component = Inr App \<Longrightarrow>
   renderToStaticMarkup env App (JObj PlainObject finalProps) = Inl thrown \<Longrightarrow>
   renderAndWrite env w Component finalProps outputRelPath = (Inl (RenderError thrown), w)"
  by (simp add: renderAndWrite_def)

lemma renderAndWrite_writes:
  "resolveExport Component = Inr App \<Longrightarrow>
   renderToStaticMarkup env App (JObj PlainObject finalProps) = Inr html \<Longrightarrow>
   minify env html = Inr minified \<Longrightarrow>
   resolveSafePath (cwd env) (output (STORAGE env)) (finalPathOf outputRelPath) = Inr fullOutputPath \<Longrightarrow>
   ensureDir env (fs w) (path_dirname fullOutputPath) = (None, fs1) \<Longrightarrow>
   writeFile env fs1 fullOutputPath minified = (None, fs2) \<Longrightarrow>
   renderAndWrite env w Component finalProps outputRelPath
     = (Inr (finalPathOf outputRelPath), w\<lparr> fs := fs2 \<rparr>)"
  by (simp add: renderAndWrite_def)

lemma renderAndWrite_written:
  assumes "resolveExport Component = Inr App"
    and "renderAndWrite env w Component finalProps outputRelPath = (Inr r, w')"
  shows "\<exists>html minified fullOutputPath fs1.
           renderToStaticMarkup env App (JObj PlainObject finalProps) = Inr html
           \<and> minify env html = Inr minified
           \<and> resolveSafePath (cwd env) (output (STORAGE env)) (finalPathOf outputRelPath)
               = Inr fullOutputPath
           \<and> ensureDir env (fs w) (path_dirname fullOutputPath) = (None, fs1)
           \<and> writeFile env fs1 fullOutputPath minified = (None, fs w')"
  using assms
  by (auto simp: renderAndWrite_def split: sum.splits prod.splits option.splits)

lemma resolveExport_selected:
  "Component \<noteq> VUndefined \<Longrightarrow> Component \<noteq> VNull \<Longrightarrow>
   resolveExport Component = Inr (selectedExport Component)"
  by (cases Component)
     (simp_all add: resolveExport_def selectedExport_def presentTruthy_def ownProps_def
        split: option.splits)

lemma resolveExport_nullish:
  "Component = VUndefined \<or> Component = VNull \<Longrightarrow> \<exists>m. resolveExport Component = Inl (TypeError m)"
  by (auto simp: resolveExport_def)


text \<open>The special modules of the example installation, built.\<close>

lemma modules_clearCache: "clearCache example_env modules_world = modules_world"
  by (rule clearCache_empty) (simp add: modules_world_def)

lemma modules_template_path:
  "resolveSafePath ''/'' ''/app/storage/templates'' ''page.js''
     = Inr ''/app/storage/templates/page.js''"
  "resolveSafePath ''/'' ''/app/storage/templates'' ''both.js''
     = Inr ''/app/storage/templates/both.js''"
  "resolveSafePath ''/'' ''/app/storage/templates'' ''nothing.js''
     = Inr ''/app/storage/templates/nothing.js''"
  "resolveSafePath ''/'' ''/app/storage/templates'' ''thrower.js''
     = Inr ''/app/storage/templates/thrower.js''"
  by (simp_all add: path_eval)

lemma modules_output_path:
  "finalPathOf ''out.html'' = ''out.html''"
  "resolveSafePath ''/'' ''/app/storage/output'' ''out.html'' = Inr ''/app/storage/output/out.html''"
  "path_dirname ''/app/storage/output/out.html'' = ''/app/storage/output''"
  by (simp_all add: finalPathOf_def endsWith_def suffix_to_prefix path_eval path_dirname_def)

lemma modules_require:
  "require example_env modules_world ''/app/storage/templates/page.js''
     = (Inr (VObject [(''default'', VNull), (''App'', VFunction ''Page'' [])]),
        modules_world\<lparr> cache := [''/app/storage/templates/page.js'' \<mapsto>
           VObject [(''default'', VNull), (''App'', VFunction ''Page'' [])]] \<rparr>)"
  "require example_env modules_world ''/app/storage/templates/both.js''
     = (Inr (VObject [(''default'', VFunction ''Home'' []), (''App'', VFunction ''Page'' [])]),
        modules_world\<lparr> cache := [''/app/storage/templates/both.js'' \<mapsto>
           VObject [(''default'', VFunction ''Home'' []), (''App'', VFunction ''Page'' [])]] \<rparr>)"
  "require example_env modules_world ''/app/storage/templates/nothing.js''
     = (Inr VNull, modules_world\<lparr> cache := [''/app/storage/templates/nothing.js'' \<mapsto> VNull] \<rparr>)"
  "require example_env modules_world ''/app/storage/templates/thrower.js''
     = (Inl (RequireError VNull), modules_world)"
  by (simp_all add: require_def example_fields modules_world_def example_module_def)

lemma modules_fs:
  "fs modules_world =
     [(''/app/storage/templates/thrower.js'', ''throw null''),
      (''/app/storage/templates/nothing.js'', ''module.exports = null''),
      (''/app/storage/templates/page.js'', ''exports.default = null; exports.App = Page''),
      (''/app/storage/templates/both.js'', ''exports.default = Home; exports.App = Page'')]"
  by (simp add: modules_world_def)

lemma example_build_page:
  "performBuild example_env modules_world ''page.js'' [] ''out.html''
     = (Inr ''out.html'',
        modules_world\<lparr> cache := [''/app/storage/templates/page.js'' \<mapsto>
             VObject [(''default'', VNull), (''App'', VFunction ''Page'' [])]],
          fs := fs modules_world @ [(''/app/storage/output/out.html'', ''Page'')] \<rparr>)"
  unfolding performBuild_unfold modules_clearCache
  by (simp add: example_STORAGE example_fields modules_template_path modules_require
      renderAndWrite_def resolveExport_def modules_output_path modules_fs)


text \<open>
  Claim C5, as amended: for every loaded template module, the build resolves the
  renderable as \<^verbatim>\<open>Component.default || Component.App || Component\<close>.  A module
  value of \<^verbatim>\<open>null\<close> or \<^verbatim>\<open>undefined\<close> makes the build fail with a \<^verbatim>\<open>TypeError\<close>.
  For any other module the build renders the selected export, which is the
  module's default export if that is present and truthy, else the export named
  \<^verbatim>\<open>App\<close> if that is present and truthy, else the module itself: what the
  renderer throws for the selected export is the build's failure, a successful
  build has written the minified rendering of the selected export, and it is
  successful when the steps after the selection are.  In particular a module with a
  truthy default export and an \<^verbatim>\<open>App\<close> export renders via the default one.
\<close>

theorem export_priority_truthy:
  assumes "resolveData env (fs w) [] dataSources = Inr finalProps"
    and "resolveSafePath (cwd env) (templates (STORAGE env)) templatePath = Inr fullTemplatePath"
    and "require env (clearCache env w) fullTemplatePath = (Inr Component, w2)"
  shows
  "(Component = VUndefined \<or> Component = VNull \<longrightarrow>
      (\<exists>m. performBuild env w templatePath dataSources outputRelPath = (Inl (TypeError m), w2)))
   \<and> (Component \<noteq> VUndefined \<and> Component \<noteq> VNull \<longrightarrow>
        resolveExport Component = Inr (selectedExport Component)
        \<and> (renderToStaticMarkup env (selectedExport Component) (JObj PlainObject finalProps)
              = Inl thrown \<longrightarrow>
            performBuild env w templatePath dataSources outputRelPath
              = (Inl (RenderError thrown), w2))
        \<and> (renderToStaticMarkup env (selectedExport Component) (JObj PlainObject finalProps)
              = Inr html
            \<and> minify env html = Inr minified
            \<and> resolveSafePath (cwd env) (output (STORAGE env)) (finalPathOf outputRelPath)
                = Inr fullOutputPath
            \<and> ensureDir env (fs w2) (path_dirname fullOutputPath) = (None, fs1)
            \<and> writeFile env fs1 fullOutputPath minified = (None, fs2) \<longrightarrow>
            performBuild env w templatePath dataSources outputRelPath
              = (Inr (finalPathOf outputRelPath), w2\<lparr> fs := fs2 \<rparr>))
        \<and> (performBuild env w templatePath dataSources outputRelPath = (Inr r, w') \<longrightarrow>
            (\<exists>html' minified' fullOutputPath' fs1'.
               renderToStaticMarkup env (selectedExport Component) (JObj PlainObject finalProps)
                 = Inr html'
               \<and> minify env html' = Inr minified'
               \<and> resolveSafePath (cwd env) (output (STORAGE env)) (finalPathOf outputRelPath)
                   = Inr fullOutputPath'
               \<and> ensureDir env (fs w2) (path_dirname fullOutputPath') = (None, fs1')
               \<and> writeFile env fs1' fullOutputPath' minified' = (None, fs w'))))"
  (is "(?A \<longrightarrow> ?N) \<and> (?B \<longrightarrow> ?O)")
proof -
  have b: "performBuild env w templatePath dataSources outputRelPath
             = renderAndWrite env w2 Component finalProps outputRelPath"
    using assms by (rule performBuild_component)
  have nullish: "\<exists>m. performBuild env w templatePath dataSources outputRelPath = (Inl (TypeError m), w2)"
    if "Component = VUndefined \<or> Component = VNull"
  proof -
    from resolveExport_nullish[OF that] obtain m where "resolveExport Component = Inl (TypeError m)" ..
    then have "renderAndWrite env w2 Component finalProps outputRelPath = (Inl (TypeError m), w2)"
      by (rule renderAndWrite_no_export)
    with b show ?thesis by simp
  qed
  have other: "resolveExport Component = Inr (selectedExport Component)
        \<and> (renderToStaticMarkup env (selectedExport Component) (JObj PlainObject finalProps)
              = Inl thrown \<longrightarrow>
            performBuild env w templatePath dataSources outputRelPath
              = (Inl (RenderError thrown), w2))
        \<and> (renderToStaticMarkup env (selectedExport Component) (JObj PlainObject finalProps)
              = Inr html
            \<and> minify env html = Inr minified
            \<and> resolveSafePath (cwd env) (output (STORAGE env)) (finalPathOf outputRelPath)
                = Inr fullOutputPath
            \<and> ensureDir env (fs w2) (path_dirname fullOutputPath) = (None, fs1)
            \<and> writeFile env fs1 fullOutputPath minified = (None, fs2) \<longrightarrow>
            performBuild env w templatePath dataSources outputRelPath
              = (Inr (finalPathOf outputRelPath), w2\<lparr> fs := fs2 \<rparr>))
        \<and> (performBuild env w templatePath dataSources outputRelPath = (Inr r, w') \<longrightarrow>
            (\<exists>html' minified' fullOutputPath' fs1'.
               renderToStaticMarkup env (selectedExport Component) (JObj PlainObject finalProps)
                 = Inr html'
               \<and> minify env html' = Inr minified'
               \<and> resolveSafePath (cwd env) (output (STORAGE env)) (finalPathOf outputRelPath)
                   = Inr fullOutputPath'
               \<and> ensureDir env (fs w2) (path_dirname fullOutputPath') = (None, fs1')
               \<and> writeFile env fs1' fullOutputPath' minified' = (None, fs w')))"
    if "Component \<noteq> VUndefined \<and> Component \<noteq> VNull"
  proof -
    have s: "resolveExport Component = Inr (selectedExport Component)"
      using that by (simp add: resolveExport_selected)
    have r1: "performBuild env w templatePath dataSources outputRelPath
              = (Inl (RenderError thrown), w2)"
      if "renderToStaticMarkup env (selectedExport Component) (JObj PlainObject finalProps)
              = Inl thrown"
      using s that unfolding b by (rule renderAndWrite_render_throws)
    have r2: "performBuild env w templatePath dataSources outputRelPath
              = (Inr (finalPathOf outputRelPath), w2\<lparr> fs := fs2 \<rparr>)"
      if "renderToStaticMarkup env (selectedExport Component) (JObj PlainObject finalProps)
              = Inr html
            \<and> minify env html = Inr minified
            \<and> resolveSafePath (cwd env) (output (STORAGE env)) (finalPathOf outputRelPath)
                = Inr fullOutputPath
            \<and> ensureDir env (fs w2) (path_dirname fullOutputPath) = (None, fs1)
            \<and> writeFile env fs1 fullOutputPath minified = (None, fs2)"
    proof -
      from that
      have "renderToStaticMarkup env (selectedExport Component) (JObj PlainObject finalProps)
              = Inr html"
        and "minify env html = Inr minified"
        and "resolveSafePath (cwd env) (output (STORAGE env)) (finalPathOf outputRelPath)
                = Inr fullOutputPath"
        and "ensureDir env (fs w2) (path_dirname fullOutputPath) = (None, fs1)"
        and "writeFile env fs1 fullOutputPath minified = (None, fs2)"
        by simp_all
      then show ?thesis unfolding b by (rule renderAndWrite_writes[OF s])
    qed
    have r3: "\<exists>html' minified' fullOutputPath' fs1'.
               renderToStaticMarkup env (selectedExport Component) (JObj PlainObject finalProps)
                 = Inr html'
               \<and> minify env html' = Inr minified'
               \<and> resolveSafePath (cwd env) (output (STORAGE env)) (finalPathOf outputRelPath)
                   = Inr fullOutputPath'
               \<and> ensureDir env (fs w2) (path_dirname fullOutputPath') = (None, fs1')
               \<and> writeFile env fs1' fullOutputPath' minified' = (None, fs w')"
      if "performBuild env w templatePath dataSources outputRelPath = (Inr r, w')"
      using that unfolding b by (rule renderAndWrite_written[OF s])
    have i1: "renderToStaticMarkup env (selectedExport Component) (JObj PlainObject finalProps)
              = Inl thrown \<longrightarrow>
            performBuild env w templatePath dataSources outputRelPath
              = (Inl (RenderError thrown), w2)"
      by (rule impI) (rule r1)
    have i2: "renderToStaticMarkup env (selectedExport Component) (JObj PlainObject finalProps)
              = Inr html
            \<and> minify env html = Inr minified
            \<and> resolveSafePath (cwd env) (output (STORAGE env)) (finalPathOf outputRelPath)
                = Inr fullOutputPath
            \<and> ensureDir env (fs w2) (path_dirname fullOutputPath) = (None, fs1)
            \<and> writeFile env fs1 fullOutputPath minified = (None, fs2) \<longrightarrow>
            performBuild env w templatePath dataSources outputRelPath
              = (Inr (finalPathOf outputRelPath), w2\<lparr> fs := fs2 \<rparr>)"
      by (rule impI) (rule r2)
    have i3: "performBuild env w templatePath dataSources outputRelPath = (Inr r, w') \<longrightarrow>
            (\<exists>html' minified' fullOutputPath' fs1'.
               renderToStaticMarkup env (selectedExport Component) (JObj PlainObject finalProps)
                 = Inr html'
               \<and> minify env html' = Inr minified'
               \<and> resolveSafePath (cwd env) (output (STORAGE env)) (finalPathOf outputRelPath)
                   = Inr fullOutputPath'
               \<and> ensureDir env (fs w2) (path_dirname fullOutputPath') = (None, fs1')
               \<and> writeFile env fs1' fullOutputPath' minified' = (None, fs w'))"
      by (rule impI) (rule r3)
    from s i1 i2 i3 show ?thesis by (intro conjI) assumption+
  qed
  have n': "?A \<longrightarrow> ?N" by (rule impI) (rule nullish)
  have o': "?B \<longrightarrow> ?O" by (rule impI) (rule other)
  from n' o' show ?thesis by (rule conjI)
qed

theorem export_priority_truthy_witness:
  "resolveData example_env (fs modules_world) [] [] = Inr []
   \<and> resolveSafePath (cwd example_env) (templates (STORAGE example_env)) ''both.js''
       = Inr ''/app/storage/templates/both.js''
   \<and> require example_env (clearCache example_env modules_world) ''/app/storage/templates/both.js''
       = (Inr (VObject [(''default'', VFunction ''Home'' []), (''App'', VFunction ''Page'' [])]),
          modules_world\<lparr> cache := [''/app/storage/templates/both.js'' \<mapsto>
             VObject [(''default'', VFunction ''Home'' []), (''App'', VFunction ''Page'' [])]] \<rparr>)
   \<and> selectedExport (VObject [(''default'', VFunction ''Home'' []), (''App'', VFunction ''Page'' [])])
       = VFunction ''Home'' []
   \<and> performBuild example_env modules_world ''both.js'' [] ''out.html''
       = (Inr ''out.html'',
          modules_world\<lparr> cache := [''/app/storage/templates/both.js'' \<mapsto>
               VObject [(''default'', VFunction ''Home'' []), (''App'', VFunction ''Page'' [])]],
            fs := fs modules_world @ [(''/app/storage/output/out.html'', ''Home'')] \<rparr>)
   \<and> require example_env (clearCache example_env modules_world) ''/app/storage/templates/nothing.js''
       = (Inr VNull, modules_world\<lparr> cache := [''/app/storage/templates/nothing.js'' \<mapsto> VNull] \<rparr>)
   \<and> (\<exists>m. performBuild example_env modules_world ''nothing.js'' [] ''out.html''
         = (Inl (TypeError m),
            modules_world\<lparr> cache := [''/app/storage/templates/nothing.js'' \<mapsto> VNull] \<rparr>))"
proof -
  let ?both = "VObject [(''default'', VFunction ''Home'' []), (''App'', VFunction ''Page'' [])]"
  let ?w2 = "modules_world\<lparr> cache := [''/app/storage/templates/both.js'' \<mapsto> ?both] \<rparr>"
  have d: "resolveData example_env (fs modules_world) [] [] = Inr []" by simp
  have t: "resolveSafePath (cwd example_env) (templates (STORAGE example_env)) ''both.js''
       = Inr ''/app/storage/templates/both.js''"
    by (simp add: example_STORAGE example_fields modules_template_path)
  have q: "require example_env (clearCache example_env modules_world)
             ''/app/storage/templates/both.js'' = (Inr ?both, ?w2)"
    unfolding modules_clearCache by (rule modules_require)
  have s: "selectedExport ?both = VFunction ''Home'' []"
    by (simp add: selectedExport_def presentTruthy_def ownProps_def)
  note T = export_priority_truthy[OF d t q, where outputRelPath="''out.html''"
        and html="''Home''" and minified="''Home''"
        and fullOutputPath="''/app/storage/output/out.html''"
        and ?fs1.0="fs modules_world"
        and ?fs2.0="fs modules_world @ [(''/app/storage/output/out.html'', ''Home'')]"]
  have nn: "?both \<noteq> VUndefined \<and> ?both \<noteq> VNull" by simp
  have pre: "renderToStaticMarkup example_env (selectedExport ?both) (JObj PlainObject []) = Inr ''Home''
            \<and> minify example_env ''Home'' = Inr ''Home''
            \<and> resolveSafePath (cwd example_env) (output (STORAGE example_env)) (finalPathOf ''out.html'')
                = Inr ''/app/storage/output/out.html''
            \<and> ensureDir example_env (fs ?w2) (path_dirname ''/app/storage/output/out.html'')
                = (None, fs modules_world)
            \<and> writeFile example_env (fs modules_world) ''/app/storage/output/out.html'' ''Home''
                = (None, fs modules_world @ [(''/app/storage/output/out.html'', ''Home'')])"
    by (simp add: s example_fields example_STORAGE modules_output_path modules_fs)
  have b0: "performBuild example_env modules_world ''both.js'' [] ''out.html''
       = (Inr (finalPathOf ''out.html''),
          ?w2\<lparr> fs := fs modules_world @ [(''/app/storage/output/out.html'', ''Home'')] \<rparr>)"
    by (rule T[THEN conjunct2, THEN mp, OF nn, THEN conjunct2, THEN conjunct2, THEN conjunct1,
          THEN mp, OF pre])
  have b: "performBuild example_env modules_world ''both.js'' [] ''out.html''
       = (Inr ''out.html'',
          modules_world\<lparr> cache := [''/app/storage/templates/both.js'' \<mapsto> ?both],
            fs := fs modules_world @ [(''/app/storage/output/out.html'', ''Home'')] \<rparr>)"
    using b0 by (simp only: modules_output_path)
  have tn: "resolveSafePath (cwd example_env) (templates (STORAGE example_env)) ''nothing.js''
       = Inr ''/app/storage/templates/nothing.js''"
    by (simp add: example_STORAGE example_fields modules_template_path)
  have qn: "require example_env (clearCache example_env modules_world)
             ''/app/storage/templates/nothing.js''
       = (Inr VNull, modules_world\<lparr> cache := [''/app/storage/templates/nothing.js'' \<mapsto> VNull] \<rparr>)"
    unfolding modules_clearCache by (rule modules_require)
  have nl: "VNull = VUndefined \<or> VNull = VNull" by simp
  have n: "\<exists>m. performBuild example_env modules_world ''nothing.js'' [] ''out.html''
         = (Inl (TypeError m),
            modules_world\<lparr> cache := [''/app/storage/templates/nothing.js'' \<mapsto> VNull] \<rparr>)"
    by (rule export_priority_truthy[OF d tn qn, THEN conjunct1, THEN mp, OF nl])
  from d t q s b qn n show ?thesis by (intro conjI) assumption+
qed

text \<open>
  Claim C5 as stated (the default export is rendered whenever it is present) fails:
  the module of \<^verbatim>\<open>page.js\<close> has a default export, present with the value \<^verbatim>\<open>null\<close>,
  and the build writes the rendering of its \<^verbatim>\<open>App\<close> export, the component
  \<^verbatim>\<open>Page\<close>.
\<close>

theorem export_priority_counterexample:
  "require example_env (clearCache example_env modules_world) ''/app/storage/templates/page.js''
     = (Inr (VObject [(''default'', VNull), (''App'', VFunction ''Page'' [])]),
        modules_world\<lparr> cache := [''/app/storage/templates/page.js'' \<mapsto>
           VObject [(''default'', VNull), (''App'', VFunction ''Page'' [])]] \<rparr>)
   \<and> map_of (ownProps (VObject [(''default'', VNull), (''App'', VFunction ''Page'' [])])) ''default''
       = Some VNull
   \<and> renderToStaticMarkup example_env (VFunction ''Page'' []) (JObj PlainObject []) = Inr ''Page''
   \<and> renderToStaticMarkup example_env VNull (JObj PlainObject [])
       = Inl (ErrorObject ''Element type is invalid'')
   \<and> performBuild example_env modules_world ''page.js'' [] ''out.html''
       = (Inr ''out.html'',
          modules_world\<lparr> cache := [''/app/storage/templates/page.js'' \<mapsto>
               VObject [(''default'', VNull), (''App'', VFunction ''Page'' [])]],
            fs := fs modules_world @ [(''/app/storage/output/out.html'', ''Page'')] \<rparr>)"
  unfolding modules_clearCache
  by (simp add: modules_require example_build_page example_fields ownProps_def)


text \<open>
  Claim C10: for every loaded template module whose default export is present but
  falsy, the build does not render the default export.  It selects the export named
  \<^verbatim>\<open>App\<close> if that is truthy, and the whole module value otherwise; the selected
  value is truthy, so it is not the default export.  The build renders that
  selection: what the renderer throws for it is the build's failure, a successful
  build has written its minified rendering, and the build is successful when the
  steps after the selection are.
\<close>

theorem falsy_default_falls_through:
  assumes "resolveData env (fs w) [] dataSources = Inr finalProps"
    and "resolveSafePath (cwd env) (templates (STORAGE env)) templatePath = Inr fullTemplatePath"
    and "require env (clearCache env w) fullTemplatePath = (Inr Component, w2)"
    and "map_of (ownProps Component) ''default'' = Some d"
    and "\<not> truthyV d"
    and "App = (case map_of (ownProps Component) ''App'' of
                  None \<Rightarrow> Component
                | Some a \<Rightarrow> if truthyV a then a else Component)"
  shows
  "truthyV App \<and> App \<noteq> d
   \<and> resolveExport Component = Inr App
   \<and> (renderToStaticMarkup env App (JObj PlainObject finalProps) = Inl thrown \<longrightarrow>
        performBuild env w templatePath dataSources outputRelPath
          = (Inl (RenderError thrown), w2))
   \<and> (renderToStaticMarkup env App (JObj PlainObject finalProps) = Inr html
        \<and> minify env html = Inr minified
        \<and> resolveSafePath (cwd env) (output (STORAGE env)) (finalPathOf outputRelPath)
            = Inr fullOutputPath
        \<and> ensureDir env (fs w2) (path_dirname fullOutputPath) = (None, fs1)
        \<and> writeFile env fs1 fullOutputPath minified = (None, fs2) \<longrightarrow>
        performBuild env w templatePath dataSources outputRelPath
          = (Inr (finalPathOf outputRelPath), w2\<lparr> fs := fs2 \<rparr>))
   \<and> (performBuild env w templatePath dataSources outputRelPath = (Inr r, w') \<longrightarrow>
        (\<exists>html' minified' fullOutputPath' fs1'.
           renderToStaticMarkup env App (JObj PlainObject finalProps) = Inr html'
           \<and> minify env html' = Inr minified'
           \<and> resolveSafePath (cwd env) (output (STORAGE env)) (finalPathOf outputRelPath)
               = Inr fullOutputPath'
           \<and> ensureDir env (fs w2) (path_dirname fullOutputPath') = (None, fs1')
           \<and> writeFile env fs1' fullOutputPath' minified' = (None, fs w')))"
proof -
  have b: "performBuild env w templatePath dataSources outputRelPath
             = renderAndWrite env w2 Component finalProps outputRelPath"
    using assms(1-3) by (rule performBuild_component)
  have module: "(\<exists>f ps. Component = VFunction f ps) \<or> (\<exists>ps. Component = VObject ps)"
    using assms(4) by (cases Component) (simp_all add: ownProps_def)
  then have tc: "truthyV Component" by auto
  have t: "truthyV App"
    using tc assms(6) by (simp split: option.splits)
  with assms(5) have ne: "App \<noteq> d" by auto
  have s: "resolveExport Component = Inr App"
    using module assms(4-6)
    by (auto simp: resolveExport_def ownProps_def split: option.splits)
  have r1: "performBuild env w templatePath dataSources outputRelPath
              = (Inl (RenderError thrown), w2)"
    if "renderToStaticMarkup env App (JObj PlainObject finalProps) = Inl thrown"
    using s that unfolding b by (rule renderAndWrite_render_throws)
  have r2: "performBuild env w templatePath dataSources outputRelPath
              = (Inr (finalPathOf outputRelPath), w2\<lparr> fs := fs2 \<rparr>)"
    if "renderToStaticMarkup env App (JObj PlainObject finalProps) = Inr html
        \<and> minify env html = Inr minified
        \<and> resolveSafePath (cwd env) (output (STORAGE env)) (finalPathOf outputRelPath)
            = Inr fullOutputPath
        \<and> ensureDir env (fs w2) (path_dirname fullOutputPath) = (None, fs1)
        \<and> writeFile env fs1 fullOutputPath minified = (None, fs2)"
  proof -
    from that
    have "renderToStaticMarkup env App (JObj PlainObject finalProps) = Inr html"
      and "minify env html = Inr minified"
      and "resolveSafePath (cwd env) (output (STORAGE env)) (finalPathOf outputRelPath)
              = Inr fullOutputPath"
      and "ensureDir env (fs w2) (path_dirname fullOutputPath) = (None, fs1)"
      and "writeFile env fs1 fullOutputPath minified = (None, fs2)"
      by simp_all
    then show ?thesis unfolding b by (rule renderAndWrite_writes[OF s])
  qed
  have r3: "\<exists>html' minified' fullOutputPath' fs1'.
           renderToStaticMarkup env App (JObj PlainObject finalProps) = Inr html'
           \<and> minify env html' = Inr minified'
           \<and> resolveSafePath (cwd env) (output (STORAGE env)) (finalPathOf outputRelPath)
               = Inr fullOutputPath'
           \<and> ensureDir env (fs w2) (path_dirname fullOutputPath') = (None, fs1')
           \<and> writeFile env fs1' fullOutputPath' minified' = (None, fs w')"
    if "performBuild env w templatePath dataSources outputRelPath = (Inr r, w')"
    using that unfolding b by (rule renderAndWrite_written[OF s])
  have i1: "renderToStaticMarkup env App (JObj PlainObject finalProps) = Inl thrown \<longrightarrow>
        performBuild env w templatePath dataSources outputRelPath
          = (Inl (RenderError thrown), w2)"
    by (rule impI) (rule r1)
  have i2: "renderToStaticMarkup env App (JObj PlainObject finalProps) = Inr html
        \<and> minify env html = Inr minified
        \<and> resolveSafePath (cwd env) (output (STORAGE env)) (finalPathOf outputRelPath)
            = Inr fullOutputPath
        \<and> ensureDir env (fs w2) (path_dirname fullOutputPath) = (None, fs1)
        \<and> writeFile env fs1 fullOutputPath minified = (None, fs2) \<longrightarrow>
        performBuild env w templatePath dataSources outputRelPath
          = (Inr (finalPathOf outputRelPath), w2\<lparr> fs := fs2 \<rparr>)"
    by (rule impI) (rule r2)
  have i3: "performBuild env w templatePath dataSources outputRelPath = (Inr r, w') \<longrightarrow>
        (\<exists>html' minified' fullOutputPath' fs1'.
           renderToStaticMarkup env App (JObj PlainObject finalProps) = Inr html'
           \<and> minify env html' = Inr minified'
           \<and> resolveSafePath (cwd env) (output (STORAGE env)) (finalPathOf outputRelPath)
               = Inr fullOutputPath'
           \<and> ensureDir env (fs w2) (path_dirname fullOutputPath') = (None, fs1')
           \<and> writeFile env fs1' fullOutputPath' minified' = (None, fs w'))"
    by (rule impI) (rule r3)
  from t ne s i1 i2 i3 show ?thesis by (intro conjI) assumption+
qed

theorem falsy_default_falls_through_witness:
  "resolveData example_env (fs modules_world) [] [] = Inr []
   \<and> resolveSafePath (cwd example_env) (templates (STORAGE example_env)) ''page.js''
       = Inr ''/app/storage/templates/page.js''
   \<and> require example_env (clearCache example_env modules_world) ''/app/storage/templates/page.js''
       = (Inr (VObject [(''default'', VNull), (''App'', VFunction ''Page'' [])]),
          modules_world\<lparr> cache := [''/app/storage/templates/page.js'' \<mapsto>
             VObject [(''default'', VNull), (''App'', VFunction ''Page'' [])]] \<rparr>)
   \<and> map_of (ownProps (VObject [(''default'', VNull), (''App'', VFunction ''Page'' [])])) ''default''
       = Some VNull
   \<and> \<not> truthyV VNull
   \<and> resolveExport (VObject [(''default'', VNull), (''App'', VFunction ''Page'' [])])
       = Inr (VFunction ''Page'' [])
   \<and> performBuild example_env modules_world ''page.js'' [] ''out.html''
       = (Inr ''out.html'',
          modules_world\<lparr> cache := [''/app/storage/templates/page.js'' \<mapsto>
               VObject [(''default'', VNull), (''App'', VFunction ''Page'' [])]],
            fs := fs modules_world @ [(''/app/storage/output/out.html'', ''Page'')] \<rparr>)"
proof -
  let ?page = "VObject [(''default'', VNull), (''App'', VFunction ''Page'' [])]"
  let ?w2 = "modules_world\<lparr> cache := [''/app/storage/templates/page.js'' \<mapsto> ?page] \<rparr>"
  have d: "resolveData example_env (fs modules_world) [] [] = Inr []" by simp
  have t: "resolveSafePath (cwd example_env) (templates (STORAGE example_env)) ''page.js''
       = Inr ''/app/storage/templates/page.js''"
    by (simp add: example_STORAGE example_fields modules_template_path)
  have q: "require example_env (clearCache example_env modules_world)
             ''/app/storage/templates/page.js'' = (Inr ?page, ?w2)"
    unfolding modules_clearCache by (rule modules_require)
  have p: "map_of (ownProps ?page) ''default'' = Some VNull" by (simp add: ownProps_def)
  have f: "\<not> truthyV VNull" by simp
  have a: "VFunction ''Page'' [] = (case map_of (ownProps ?page) ''App'' of
                  None \<Rightarrow> ?page
                | Some a \<Rightarrow> if truthyV a then a else ?page)"
    by (simp add: ownProps_def)
  note T = falsy_default_falls_through[OF d t q p f a, where outputRelPath="''out.html''"
        and html="''Page''" and minified="''Page''"
        and fullOutputPath="''/app/storage/output/out.html''"
        and ?fs1.0="fs modules_world"
        and ?fs2.0="fs modules_world @ [(''/app/storage/output/out.html'', ''Page'')]"]
  have s: "resolveExport ?page = Inr (VFunction ''Page'' [])"
    by (rule T[THEN conjunct2, THEN conjunct2, THEN conjunct1])
  have pre: "renderToStaticMarkup example_env (VFunction ''Page'' []) (JObj PlainObject []) = Inr ''Page''
            \<and> minify example_env ''Page'' = Inr ''Page''
            \<and> resolveSafePath (cwd example_env) (output (STORAGE example_env)) (finalPathOf ''out.html'')
                = Inr ''/app/storage/output/out.html''
            \<and> ensureDir example_env (fs ?w2) (path_dirname ''/app/storage/output/out.html'')
                = (None, fs modules_world)
            \<and> writeFile example_env (fs modules_world) ''/app/storage/output/out.html'' ''Page''
                = (None, fs modules_world @ [(''/app/storage/output/out.html'', ''Page'')])"
    by (simp add: example_fields example_STORAGE modules_output_path modules_fs)
  have b0: "performBuild example_env modules_world ''page.js'' [] ''out.html''
       = (Inr (finalPathOf ''out.html''),
          ?w2\<lparr> fs := fs modules_world @ [(''/app/storage/output/out.html'', ''Page'')] \<rparr>)"
    by (rule T[THEN conjunct2, THEN conjunct2, THEN conjunct2, THEN conjunct2, THEN conjunct1,
          THEN mp, OF pre])
  have b: "performBuild example_env modules_world ''page.js'' [] ''out.html''
       = (Inr ''out.html'',
          modules_world\<lparr> cache := [''/app/storage/templates/page.js'' \<mapsto> ?page],
            fs := fs modules_world @ [(''/app/storage/output/out.html'', ''Page'')] \<rparr>)"
    using b0 by (simp only: modules_output_path)
  from d t q p f s b show ?thesis by (intro conjI) assumption+
qed


section \<open>Properties of the batch loop\<close>

lemma status_itemOf: "status (itemOf f built) = (if isl built then ''error'' else ''success'')"
  by (cases built) (simp_all add: itemOf_def)

lemma file_itemOf: "file (itemOf f built) = f"
  by (cases built) (simp_all add: itemOf_def)

lemma itemOf_Inl:
  "message e = Inr m \<Longrightarrow>
   itemOf f (Inl e) = \<lparr> file = f, status = ''error'', path = None, error = Some m \<rparr>"
  by (simp add: itemOf_def)

lemma itemOf_Inr:
  "itemOf f (Inr p) = \<lparr> file = f, status = ''success'', path = Some p, error = None \<rparr>"
  by (simp add: itemOf_def)

lemma length_buildOutcomes:
  "length (buildOutcomes env w tp df ob files) = length files"
  by (induction files arbitrary: w) (auto split: prod.splits)

lemma batchLoop_results:
  "\<forall>b \<in> set (buildOutcomes env w tp df base files). readable b \<Longrightarrow>
   fst (batchLoop env w tp df (Text base) files)
     = Inr (map2 itemOf files (buildOutcomes env w tp df base files))"
proof (induction files arbitrary: w)
  case Nil
  then show ?case by simp
next
  case (Cons f files)
  obtain built w1 where b: "performBuild env w tp (itemDataSources df f) (itemOutputName base f)
      = (built, w1)"
    by (cases "performBuild env w tp (itemDataSources df f) (itemOutputName base f)")
  obtain results w2 where l: "batchLoop env w1 tp df (Text base) files = (results, w2)"
    by (cases "batchLoop env w1 tp df (Text base) files")
  from Cons.prems b have rb: "readable built"
    and rest: "\<forall>b \<in> set (buildOutcomes env w1 tp df base files). readable b"
    by simp_all
  from Cons.IH[OF rest] l
  have r: "results = Inr (map2 itemOf files (buildOutcomes env w1 tp df base files))"
    by simp
  show ?case
  proof (cases built)
    case (Inr builtPath)
    with b l r show ?thesis by (simp add: itemOf_def)
  next
    case (Inl err)
    with rb obtain m where "message err = Inr m"
      by (auto simp: readable_def split: sum.splits)
    with Inl b l r show ?thesis by (simp add: itemOf_def)
  qed
qed

lemma batchLoop_aborts:
  "\<exists>b \<in> set (buildOutcomes env w tp df base files). \<not> readable b \<Longrightarrow>
   isl (fst (batchLoop env w tp df (Text base) files))"
proof (induction files arbitrary: w)
  case Nil
  then show ?case by simp
next
  case (Cons f files)
  obtain built w1 where b: "performBuild env w tp (itemDataSources df f) (itemOutputName base f)
      = (built, w1)"
    by (cases "performBuild env w tp (itemDataSources df f) (itemOutputName base f)")
  obtain results w2 where l: "batchLoop env w1 tp df (Text base) files = (results, w2)"
    by (cases "batchLoop env w1 tp df (Text base) files")
  show ?case
  proof (cases "readable built")
    case False
    then obtain err e where "built = Inl err" "message err = Inl e"
      by (auto simp: readable_def split: sum.splits)
    with b show ?thesis by simp
  next
    case True
    with Cons.prems b
    have "\<exists>b \<in> set (buildOutcomes env w1 tp df base files). \<not> readable b" by simp
    from Cons.IH[OF this] l have "isl results" by simp
    then obtain e where "results = Inl e" by (cases results) simp_all
    with b l show ?thesis by (simp split: sum.splits)
  qed
qed

lemma batchLoop_fails:
  "isl (fst (batchLoop env w tp df (Text base) files))
     = (\<not> list_all readable (buildOutcomes env w tp df base files))"
proof (cases "list_all readable (buildOutcomes env w tp df base files)")
  case True
  then have "\<forall>b \<in> set (buildOutcomes env w tp df base files). readable b"
    by (simp add: list_all_iff)
  from batchLoop_results[OF this] True show ?thesis by simp
next
  case False
  then have "\<exists>b \<in> set (buildOutcomes env w tp df base files). \<not> readable b"
    by (simp add: list_all_iff)
  from batchLoop_aborts[OF this] False show ?thesis by simp
qed

lemma batchLoop_NonString:
  "batchLoop env w tp df (NonString received) files
     = (if files = [] then (Inr [], w) else (Inl (invalidPathArgument received), w))"
  by (cases files) simp_all

lemma map2_file:
  "length os = length files \<Longrightarrow> map file (map2 itemOf files os) = files"
  by (induction files os rule: list_induct2') (auto simp: file_itemOf)

lemma map2_status:
  "length os = length files \<Longrightarrow>
   map status (map2 itemOf files os) = map (\<lambda>b. if isl b then ''error'' else ''success'') os"
  by (induction files os rule: list_induct2') (auto simp: status_itemOf)

lemma count_errors:
  "length (filter (\<lambda>r. status r = ''error'') rs)
     = length (filter (\<lambda>s. s = ''error'') (map status rs))"
  by (induction rs) auto

lemma count_successes:
  "length (filter (\<lambda>r. status r = ''success'') rs)
     = length (filter (\<lambda>s. s = ''success'') (map status rs))"
  by (induction rs) auto

lemma count_status_error:
  "length (filter (\<lambda>s. s = ''error'') (map (\<lambda>b. if isl b then ''error'' else ''success'') os))
     = length (filter isl os)"
  by (induction os) auto

lemma count_status_success:
  "length (filter (\<lambda>s. s = ''success'') (map (\<lambda>b. if isl b then ''error'' else ''success'') os))
     = length os - length (filter isl os)"
proof (induction os)
  case Nil
  then show ?case by simp
next
  case (Cons b os)
  have "length (filter isl os) \<le> length os" by simp
  with Cons show ?case by (auto simp: Suc_diff_le)
qed

lemma batchBuild_Inr:
  assumes "resolveSafePath (cwd env) (data (STORAGE env)) folder = Inr fullDataDir"
    and "readdir env (fs w) fullDataDir = Inr files"
    and "\<forall>b \<in> set (buildOutcomes env w tp folder base (filter (\<lambda>f. endsWith f ''.json'') files)).
           readable b"
  shows "fst (batchBuild env w tp (Text folder) (Text base))
     = Inr (map2 itemOf (filter (\<lambda>f. endsWith f ''.json'') files)
             (buildOutcomes env w tp folder base (filter (\<lambda>f. endsWith f ''.json'') files)))"
  using assms(1,2) batchLoop_results[OF assms(3)]
  by (simp add: batchBuild_def)

lemma batchBuild_fails:
  "isl (fst (batchBuild env w tp dataFolder outputBase)) =
     (case dataFolder of
        NonString received \<Rightarrow> True
      | Text folder \<Rightarrow>
     (case resolveSafePath (cwd env) (data (STORAGE env)) folder of
        Inl e \<Rightarrow> True
      | Inr fullDataDir \<Rightarrow>
     (case readdir env (fs w) fullDataDir of
        Inl m \<Rightarrow> True
      | Inr files \<Rightarrow>
     (case outputBase of
        NonString received \<Rightarrow> filter (\<lambda>f. endsWith f ''.json'') files \<noteq> []
      | Text base \<Rightarrow>
          \<not> list_all readable
              (buildOutcomes env w tp folder base (filter (\<lambda>f. endsWith f ''.json'') files))))))"
proof (cases dataFolder)
  case (NonString received)
  then show ?thesis by (simp add: batchBuild_def)
next
  case (Text folder)
  show ?thesis
  proof (cases "resolveSafePath (cwd env) (data (STORAGE env)) folder")
    case (Inl e)
    with Text show ?thesis by (simp add: batchBuild_def)
  next
    case (Inr fullDataDir)
    show ?thesis
    proof (cases "readdir env (fs w) fullDataDir")
      case (Inl m)
      with Text Inr show ?thesis by (simp add: batchBuild_def)
    next
      case files: (Inr files)
      show ?thesis
      proof (cases outputBase)
        case (NonString received)
        with Text Inr files show ?thesis
          by (simp add: batchBuild_def batchLoop_NonString)
      next
        case base: (Text base)
        with Text Inr files show ?thesis
          by (simp add: batchBuild_def batchLoop_fails)
      qed
    qed
  qed
qed

text \<open>The batch of the example installation, evaluated.\<close>

lemma example_readdir:
  "readdir example_env f ''/app/storage/data''
     = Inr [''a.json'', ''notes.txt'', ''c.json'', ''b.json'']"
  by (simp add: example_env_def)

lemma example_data_dir:
  "resolveSafePath ''/'' ''/app/storage/data'' ''.'' = Inr ''/app/storage/data''"
  by (simp add: path_eval)

lemma example_jsonFiles:
  "filter (\<lambda>f. endsWith f ''.json'') [''a.json'', ''notes.txt'', ''c.json'', ''b.json'']
     = [''a.json'', ''c.json'', ''b.json'']"
  by (simp add: endsWith_def suffix_to_prefix)

lemma example_items:
  "itemDataSources ''.'' ''a.json'' = [\<lparr> filename = Some ''a.json'', key = None \<rparr>]"
  "itemDataSources ''.'' ''b.json'' = [\<lparr> filename = Some ''b.json'', key = None \<rparr>]"
  "itemDataSources ''.'' ''c.json'' = [\<lparr> filename = Some ''c.json'', key = None \<rparr>]"
  "finalPathOf (itemOutputName ''out'' ''a.json'') = ''out/a/index.html''"
  "finalPathOf (itemOutputName ''out'' ''b.json'') = ''out/b/index.html''"
  by (simp_all add: itemDataSources_def itemDataPath_def itemOutputName_def path_eval
      finalPathOf_def endsWith_def suffix_to_prefix)

lemma example_item_paths:
  "resolveSafePath ''/'' ''/app/storage/output'' ''out/a/index.html''
     = Inr ''/app/storage/output/out/a/index.html''"
  "resolveSafePath ''/'' ''/app/storage/output'' ''out/b/index.html''
     = Inr ''/app/storage/output/out/b/index.html''"
  by (simp_all add: path_eval)


lemma example_clearCache_loaded:
  "clearCache example_env \<lparr> cache = [''/app/storage/templates/t.js'' \<mapsto> m], loader = (), fs = f \<rparr>
     = \<lparr> cache = Map.empty, loader = (), fs = f \<rparr>"
  by (auto simp: clearCache_def example_STORAGE fun_eq_iff startsWith_def)

lemma example_clearCache_fresh:
  "clearCache example_env \<lparr> cache = Map.empty, loader = (), fs = f \<rparr> = \<lparr> cache = Map.empty, loader = (), fs = f \<rparr>"
  by (rule clearCache_empty) simp

lemma example_item_ok:
  assumes "clearCache example_env w = \<lparr> cache = Map.empty, loader = (), fs = f \<rparr>"
    and "map_of f ''/app/storage/templates/t.js'' = Some src"
    and "sourceValue example_env f \<lparr> filename = Some name, key = None \<rparr> = Inr (Some v)"
    and "resolveSafePath ''/'' ''/app/storage/output'' (finalPathOf out) = Inr full"
    and "example_module src = Inr (VObject [(''default'', VFunction src [])])"
  shows "performBuild example_env w ''t.js'' [\<lparr> filename = Some name, key = None \<rparr>] out
     = (Inr (finalPathOf out),
        \<lparr> cache = [''/app/storage/templates/t.js'' \<mapsto> VObject [(''default'', VFunction src [])]],
          loader = (), fs = AList.update full src f \<rparr>)"
proof -
  have f: "fs w = f" using assms(1) clearCache_fs[of example_env w] by simp
  show ?thesis
    unfolding performBuild_unfold assms(1)
    using assms(2-5) f
    by (simp add: example_STORAGE example_fields example_template_path
        require_def renderAndWrite_def resolveExport_def)
qed

lemma example_item_unreadable:
  assumes "clearCache example_env w = \<lparr> cache = Map.empty, loader = (), fs = f \<rparr>"
    and "sourceValue example_env f \<lparr> filename = Some name, key = None \<rparr> = Inl e"
  shows "performBuild example_env w ''t.js'' [\<lparr> filename = Some name, key = None \<rparr>] out
     = (Inl e, \<lparr> cache = Map.empty, loader = (), fs = f \<rparr>)"
proof -
  have f: "fs w = f" using assms(1) clearCache_fs[of example_env w] by simp
  show ?thesis
    unfolding performBuild_unfold assms(1)
    using assms(2) f by simp
qed

lemma example_outcomes:
  "buildOutcomes example_env example_world ''t.js'' ''.'' ''out'' [''a.json'', ''c.json'', ''b.json'']
     = [Inr ''out/a/index.html'', Inl (ReadJsonError ''Unexpected end of JSON input''),
        Inr ''out/b/index.html'']"
proof -
  let ?t = "''/app/storage/templates/t.js''"
  let ?f0 = "[(?t, ''V1'')]"
  let ?f1 = "[(?t, ''V1''), (''/app/storage/output/out/a/index.html'', ''V1'')]"
  let ?m = "VObject [(''default'', VFunction ''V1'' [])]"
  have c0: "clearCache example_env example_world = \<lparr> cache = Map.empty, loader = (), fs = ?f0 \<rparr>"
    unfolding example_clearCache by (simp add: example_world_def)
  have pa: "resolveSafePath ''/'' ''/app/storage/output'' (finalPathOf (itemOutputName ''out'' ''a.json''))
      = Inr ''/app/storage/output/out/a/index.html''"
    by (simp add: example_items example_item_paths)
  have pb: "resolveSafePath ''/'' ''/app/storage/output'' (finalPathOf (itemOutputName ''out'' ''b.json''))
      = Inr ''/app/storage/output/out/b/index.html''"
    by (simp add: example_items example_item_paths)
  have 1: "performBuild example_env example_world ''t.js'' (itemDataSources ''.'' ''a.json'')
             (itemOutputName ''out'' ''a.json'')
     = (Inr ''out/a/index.html'', \<lparr> cache = [?t \<mapsto> ?m], loader = (), fs = ?f1 \<rparr>)"
    using example_item_ok[OF c0 _ example_sourceValue(3) pa, of "''V1''"]
    by (simp add: example_items example_module_def)
  have 2: "performBuild example_env \<lparr> cache = [?t \<mapsto> ?m], loader = (), fs = ?f1 \<rparr>
             ''t.js'' (itemDataSources ''.'' ''c.json'') (itemOutputName ''out'' ''c.json'')
     = (Inl (ReadJsonError ''Unexpected end of JSON input''), \<lparr> cache = Map.empty, loader = (), fs = ?f1 \<rparr>)"
    using example_item_unreadable[OF example_clearCache_loaded example_sourceValue(7)]
    by (simp add: example_items)
  have 3: "fst (performBuild example_env \<lparr> cache = Map.empty, loader = (), fs = ?f1 \<rparr>
             ''t.js'' (itemDataSources ''.'' ''b.json'') (itemOutputName ''out'' ''b.json''))
     = Inr ''out/b/index.html''"
    using example_item_ok[OF example_clearCache_fresh _ example_sourceValue(4) pb, of ?f1 "''V1''"]
    by (simp add: example_items example_module_def)
  show ?thesis
    using 1 2 3 by (simp add: case_prod_unfold)
qed






section \<open>Properties of the template cache\<close>

text \<open>
  The storage roots are normalized absolute paths when \<^verbatim>\<open>__dirname\<close> is
  absolute, so \<^verbatim>\<open>path.resolve\<close> leaves them as they are: the root that the sandbox
  compares with is the prefix that the cache is cleared by.
\<close>

lemma split_slash_no_slash: "s \<in> set (split_slash p) \<Longrightarrow> CHR ''/'' \<notin> set s"
proof (induction p arbitrary: s)
  case Nil
  then show ?case by simp
next
  case (Cons c p)
  show ?case
  proof (cases "c = CHR ''/''")
    case True
    with Cons show ?thesis by auto
  next
    case False
    obtain t ts where sp: "split_slash p = t # ts"
      using split_slash_nonempty[of p] by (cases "split_slash p") auto
    with False Cons.prems have "s = c # t \<or> s \<in> set ts" by simp
    moreover have "CHR ''/'' \<notin> set t" using Cons.IH[of t] sp by simp
    moreover have "s \<in> set ts \<Longrightarrow> CHR ''/'' \<notin> set s" using Cons.IH[of s] sp by simp
    ultimately show ?thesis using False by auto
  qed
qed

lemma split_slash_single: "CHR ''/'' \<notin> set s \<Longrightarrow> split_slash s = [s]"
  by (induction s) auto

lemma split_slash_join:
  "N \<noteq> [] \<Longrightarrow> \<forall>s \<in> set N. CHR ''/'' \<notin> set s \<Longrightarrow> split_slash (join_slash N) = N"
proof (induction N rule: join_slash.induct)
  case 1
  then show ?case by simp
next
  case (2 s)
  then show ?case by (simp add: split_slash_single)
next
  case (3 s t ss)
  then have "split_slash (join_slash (t # ss)) = t # ss" by simp
  moreover have "split_slash s = [s]" using 3 by (simp add: split_slash_single)
  ultimately show ?case
    using split_slash_append[of s "join_slash (t # ss)"] by simp
qed

lemma normalize_step_ordinary:
  "s \<noteq> [] \<Longrightarrow> s \<noteq> ''.'' \<Longrightarrow> s \<noteq> ''..'' \<Longrightarrow> normalize_step b res s = res @ [s]"
  by (simp add: normalize_step_def)

lemma foldl_normalize_ordinary:
  "\<forall>s \<in> set N. s \<noteq> [] \<and> s \<noteq> ''.'' \<and> s \<noteq> ''..'' \<Longrightarrow>
   foldl (normalize_step b) res N = res @ N"
  by (induction N arbitrary: res) (simp_all add: normalize_step_ordinary)

lemma normalize_step_keeps:
  assumes "\<forall>s \<in> set res. s \<noteq> [] \<and> s \<noteq> ''.'' \<and> s \<noteq> ''..'' \<and> CHR ''/'' \<notin> set s"
    and "CHR ''/'' \<notin> set seg"
  shows "\<forall>s \<in> set (normalize_step False res seg).
           s \<noteq> [] \<and> s \<noteq> ''.'' \<and> s \<noteq> ''..'' \<and> CHR ''/'' \<notin> set s"
proof -
  have "set (butlast res) \<subseteq> set res" by (auto dest: in_set_butlastD)
  with assms show ?thesis
    unfolding normalize_step_def by (simp add: subset_iff)
qed

lemma foldl_normalize_keeps:
  assumes "\<forall>s \<in> set res. s \<noteq> [] \<and> s \<noteq> ''.'' \<and> s \<noteq> ''..'' \<and> CHR ''/'' \<notin> set s"
    and "\<forall>seg \<in> set segs. CHR ''/'' \<notin> set seg"
  shows "\<forall>s \<in> set (foldl (normalize_step False) res segs).
           s \<noteq> [] \<and> s \<noteq> ''.'' \<and> s \<noteq> ''..'' \<and> CHR ''/'' \<notin> set s"
  using assms
proof (induction segs arbitrary: res)
  case Nil
  then show ?case by simp
next
  case (Cons seg segs)
  have "\<forall>s \<in> set (normalize_step False res seg).
           s \<noteq> [] \<and> s \<noteq> ''.'' \<and> s \<noteq> ''..'' \<and> CHR ''/'' \<notin> set s"
    using Cons.prems by (intro normalize_step_keeps) simp_all
  with Cons.IH[of "normalize_step False res seg"] Cons.prems show ?case by simp
qed

lemma normalize_segments_ordinary:
  "\<forall>s \<in> set (normalize_segments False p).
     s \<noteq> [] \<and> s \<noteq> ''.'' \<and> s \<noteq> ''..'' \<and> CHR ''/'' \<notin> set s"
  unfolding normalize_segments_def
  by (rule foldl_normalize_keeps) (simp_all add: split_slash_no_slash)

lemma normalize_segments_rooted:
  assumes "\<forall>s \<in> set N. s \<noteq> [] \<and> s \<noteq> ''.'' \<and> s \<noteq> ''..'' \<and> CHR ''/'' \<notin> set s"
  shows "normalize_segments b (''/'' @ join_slash N @ ''/'') = N"
proof (cases "N = []")
  case True
  then show ?thesis by (simp add: normalize_segments_def normalize_step_def)
next
  case False
  have "split_slash (join_slash N @ ''/'') = split_slash (join_slash N) @ [[]]"
    using split_slash_append[of "join_slash N" "[]"] by simp
  also have "split_slash (join_slash N) = N"
    using False assms by (intro split_slash_join) simp_all
  finally have "split_slash (''/'' @ join_slash N @ ''/'') = [] # N @ [[]]" by simp
  then have "normalize_segments b (''/'' @ join_slash N @ ''/'')
      = foldl (normalize_step b) [] ([] # N @ [[]])"
    by (simp add: normalize_segments_def)
  also have "\<dots> = normalize_step b (foldl (normalize_step b) [] N) []"
    by (simp add: normalize_step_def)
  also have "\<dots> = foldl (normalize_step b) [] N" by (simp add: normalize_step_def)
  also have "\<dots> = N" using assms foldl_normalize_ordinary[of N b "[]"] by simp
  finally show ?thesis .
qed

lemma path_resolve_rooted:
  assumes "\<forall>s \<in> set N. s \<noteq> [] \<and> s \<noteq> ''.'' \<and> s \<noteq> ''..'' \<and> CHR ''/'' \<notin> set s"
  shows "path_resolve wd [''/'' @ join_slash N] = ''/'' @ join_slash N"
proof -
  have "resolve_loop (rev [''/'' @ join_slash N] @ [wd]) [] = (''/'' @ join_slash N @ ''/'', True)"
    by (simp add: isAbsolute_def)
  moreover have "normalizeString (''/'' @ join_slash N @ ''/'') False = join_slash N"
    unfolding normalizeString_def normalize_segments_rooted[OF assms] ..
  ultimately show ?thesis by (simp add: path_resolve_def)
qed

lemma templates_root_rooted:
  assumes "isAbsolute (dirname env)"
  shows "templates (STORAGE env)
    = ''/'' @ join_slash (normalize_segments False (dirname env) @ [''storage'', ''templates''])"
proof -
  let ?d = "dirname env"
  let ?J = "?d @ ''/storage/templates''"
  let ?N = "normalize_segments False ?d @ [''storage'', ''templates'']"
  from assms have d: "?d \<noteq> []" and h: "hd ?d = CHR ''/''" by (simp_all add: isAbsolute_def)
  have j: "join_slash [?d, ''storage'', ''templates''] = ?J" by simp
  have a: "isAbsolute ?J" using d h by (cases ?d) (simp_all add: isAbsolute_def)
  have "split_slash ?J = split_slash ?d @ [''storage'', ''templates'']"
    using split_slash_append[of ?d "''storage/templates''"] by simp
  then have "normalize_segments False ?J = ?N"
    by (simp add: normalize_segments_def normalize_step_def)
  then have n: "normalizeString ?J False = join_slash ?N" by (simp add: normalizeString_def)
  have "join_slash ((normalize_segments False ?d @ [''storage'']) @ [''templates'']) \<noteq> []"
    by (rule join_slash_snoc) simp
  then have ne: "join_slash ?N \<noteq> []" by simp
  have "path_normalize ?J = ''/'' @ join_slash ?N"
    unfolding path_normalize_def Let_def using a n ne by simp
  with d j show ?thesis by (simp add: STORAGE_def path_join_def)
qed

lemma resolve_templates_root:
  assumes "isAbsolute (dirname env)"
  shows "path_resolve wd [templates (STORAGE env)] = templates (STORAGE env)"
  unfolding templates_root_rooted[OF assms]
  using normalize_segments_ordinary[of "dirname env"]
  by (intro path_resolve_rooted) simp

lemma template_path_under_root:
  assumes "isAbsolute (dirname env)"
    and "resolveSafePath (cwd env) (templates (STORAGE env)) templatePath = Inr fullTemplatePath"
  shows "startsWith fullTemplatePath (templates (STORAGE env))"
proof -
  have "startsWith fullTemplatePath (path_resolve (cwd env) [templates (STORAGE env)])"
    using resolveSafePath_Inr[OF assms(2)] by (rule conjunct2)
  then show ?thesis unfolding resolve_templates_root[OF assms(1)] .
qed

lemma clearCache_under_root:
  "startsWith k (templates (STORAGE env)) \<Longrightarrow> cache (clearCache env w) k = None"
  by (simp add: clearCache_def)


text \<open>
  Hot reload where it holds.  When the file name that the template path resolves
  to starts with the template root, the clearing removes its module from the
  cache, whatever an earlier build left there; the next build then loads the file
  again and renders and writes with what the loader gives for the file system of
  that moment.  A template path that names its file itself (no symbolic link on
  the way, the extension written out) is such a path.
\<close>

lemma require_after_clearCache:
  assumes "resolveFilename env (fs w) fullTemplatePath = Inr file_name"
    and "startsWith file_name (templates (STORAGE env))"
    and "loadModule env (loader w) (fs w) file_name = (Inr V, ld)"
  shows "require env (clearCache env w) fullTemplatePath
    = (Inr V, (clearCache env w)\<lparr> cache := (cache (clearCache env w))(file_name \<mapsto> V),
                                    loader := ld \<rparr>)"
  using clearCache_under_root[OF assms(2), of w] assms(1,3)
  by (simp add: require_def clearCache_def)

lemma hot_reload_under_root:
  assumes "resolveSafePath (cwd env) (templates (STORAGE env)) templatePath = Inr fullTemplatePath"
    and "resolveFilename env f2 fullTemplatePath = Inr file_name"
    and "startsWith file_name (templates (STORAGE env))"
    and "loadModule env (loader w1) f2 file_name = (Inr V2, ld)"
  shows "fst (require env (clearCache env (w1\<lparr> fs := f2 \<rparr>)) fullTemplatePath) = Inr V2
     \<and> performBuild env (w1\<lparr> fs := f2 \<rparr>) templatePath dataSources outputRelPath =
         (case resolveData env f2 [] dataSources of
            Inl e \<Rightarrow> (Inl e, clearCache env (w1\<lparr> fs := f2 \<rparr>))
          | Inr finalProps \<Rightarrow>
              renderAndWrite env
                ((clearCache env (w1\<lparr> fs := f2 \<rparr>))
                   \<lparr> cache := (cache (clearCache env (w1\<lparr> fs := f2 \<rparr>)))(file_name \<mapsto> V2),
                     loader := ld \<rparr>)
                V2 finalProps outputRelPath)"
proof -
  let ?w = "w1\<lparr> fs := f2 \<rparr>"
  have r: "resolveFilename env (fs ?w) fullTemplatePath = Inr file_name" using assms(2) by simp
  have l: "loadModule env (loader ?w) (fs ?w) file_name = (Inr V2, ld)" using assms(4) by simp
  note q = require_after_clearCache[OF r assms(3) l]
  have 1: "fst (require env (clearCache env ?w) fullTemplatePath) = Inr V2"
    using q by simp
  have 2: "performBuild env ?w templatePath dataSources outputRelPath =
         (case resolveData env f2 [] dataSources of
            Inl e \<Rightarrow> (Inl e, clearCache env ?w)
          | Inr finalProps \<Rightarrow>
              renderAndWrite env
                ((clearCache env ?w)\<lparr> cache := (cache (clearCache env ?w))(file_name \<mapsto> V2),
                                       loader := ld \<rparr>)
                V2 finalProps outputRelPath)"
    using assms(1) q by (simp add: performBuild_unfold split: sum.splits)
  from 1 2 show ?thesis by (intro conjI) assumption+
qed

lemma hot_reload_regular_file:
  assumes "isAbsolute (dirname env)"
    and "resolveSafePath (cwd env) (templates (STORAGE env)) templatePath = Inr fullTemplatePath"
    and "resolveFilename env f2 fullTemplatePath = Inr fullTemplatePath"
    and "loadModule env (loader w1) f2 fullTemplatePath = (Inr V2, ld)"
  shows "fst (require env (clearCache env (w1\<lparr> fs := f2 \<rparr>)) fullTemplatePath) = Inr V2"
  using hot_reload_under_root[OF assms(2,3) template_path_under_root[OF assms(1,2)] assms(4)]
  by (rule conjunct1)

text \<open>The example installation: a template of the template folder is loaded again
  after it is overwritten.\<close>

lemma example_hot_reload:
  "performBuild example_env
       ((snd (performBuild example_env example_world ''t.js'' [] ''reports''))
          \<lparr> fs := [(''/app/storage/templates/t.js'', ''V2''),
                   (''/app/storage/output/reports/index.html'', ''V1'')] \<rparr>)
       ''t.js'' [] ''reports''
     = (Inr ''reports/index.html'',
        \<lparr> cache = [''/app/storage/templates/t.js'' \<mapsto> VObject [(''default'', VFunction ''V2'' [])]],
          loader = (),
          fs = [(''/app/storage/templates/t.js'', ''V2''),
                (''/app/storage/output/reports/index.html'', ''V2'')] \<rparr>)"
proof -
  let ?t = "''/app/storage/templates/t.js''"
  let ?f2 = "[(?t, ''V2''), (''/app/storage/output/reports/index.html'', ''V1'')]"
  let ?w1 = "\<lparr> cache = [?t \<mapsto> VObject [(''default'', VFunction ''V1'' [])]], loader = (),
          fs = [(?t, ''V1''), (''/app/storage/output/reports/index.html'', ''V1'')] \<rparr>"
  have b: "resolveSafePath (cwd example_env) (templates (STORAGE example_env)) ''t.js'' = Inr ?t"
    by (simp add: example_STORAGE example_cwd example_template_path)
  have n: "resolveFilename example_env ?f2 ?t = Inr ?t"
    by (simp add: example_fields)
  have u: "startsWith ?t (templates (STORAGE example_env))"
    by (simp add: example_STORAGE startsWith_def)
  have d: "loadModule example_env (loader ?w1) ?f2 ?t
             = (Inr (VObject [(''default'', VFunction ''V2'' [])]), ())"
    by (simp add: example_fields example_module_def)
  note t = hot_reload_under_root[OF b n u d, of "[]" "''reports''", THEN conjunct2]
  have 2: "performBuild example_env (?w1\<lparr> fs := ?f2 \<rparr>) ''t.js'' [] ''reports''
     = (Inr ''reports/index.html'',
        \<lparr> cache = [?t \<mapsto> VObject [(''default'', VFunction ''V2'' [])]], loader = (),
          fs = [(?t, ''V2''), (''/app/storage/output/reports/index.html'', ''V2'')] \<rparr>)"
    using t
    by (simp add: example_clearCache_loaded renderAndWrite_def resolveExport_def example_fields
        example_finalPath example_STORAGE example_output_path path_dirname_def)
  show ?thesis unfolding example_build_reports snd_conv using 2 by simp
qed

text \<open>The example installation: the template \<^verbatim>\<open>link.js\<close>, a symbolic link to
  \<^verbatim>\<open>/srv/shared/t.js\<close>, built, overwritten and built again.\<close>

lemma shared_clearCache: "clearCache example_env shared_world = shared_world"
  by (rule clearCache_empty) (simp add: shared_world_def)

lemma shared_template_path:
  "resolveSafePath ''/'' ''/app/storage/templates'' ''link.js''
     = Inr ''/app/storage/templates/link.js''"
  by (simp add: path_eval)

lemma shared_clearCache_loaded:
  "clearCache example_env \<lparr> cache = [''/srv/shared/t.js'' \<mapsto> m], loader = (), fs = f \<rparr>
     = \<lparr> cache = [''/srv/shared/t.js'' \<mapsto> m], loader = (), fs = f \<rparr>"
  by (auto simp: clearCache_def example_STORAGE fun_eq_iff startsWith_def)

lemma shared_build_first:
  "performBuild example_env shared_world ''link.js'' [] ''reports''
     = (Inr ''reports/index.html'',
        \<lparr> cache = [''/srv/shared/t.js'' \<mapsto> VObject [(''default'', VFunction ''V1'' [])]],
          loader = (),
          fs = [(''/srv/shared/t.js'', ''V1''),
                (''/app/storage/output/reports/index.html'', ''V1'')] \<rparr>)"
  unfolding performBuild_unfold shared_clearCache
  by (simp add: example_STORAGE example_fields shared_template_path
      require_def example_module_def renderAndWrite_def resolveExport_def
      example_finalPath example_output_path shared_world_def path_dirname_def)

lemma shared_build_second:
  "performBuild example_env
      \<lparr> cache = [''/srv/shared/t.js'' \<mapsto> VObject [(''default'', VFunction ''V1'' [])]],
        loader = (),
        fs = [(''/srv/shared/t.js'', ''V2''),
              (''/app/storage/output/reports/index.html'', ''V1'')] \<rparr>
      ''link.js'' [] ''reports''
     = (Inr ''reports/index.html'',
        \<lparr> cache = [''/srv/shared/t.js'' \<mapsto> VObject [(''default'', VFunction ''V1'' [])]],
          loader = (),
          fs = [(''/srv/shared/t.js'', ''V2''),
                (''/app/storage/output/reports/index.html'', ''V1'')] \<rparr>)"
  unfolding performBuild_unfold shared_clearCache_loaded
  by (simp add: example_STORAGE example_fields shared_template_path
      require_def renderAndWrite_def resolveExport_def
      example_finalPath example_output_path path_dirname_def)


text \<open>
  Claim C4 (before loading the template, every previously loaded module whose
  path lies under the template root is invalidated, so that building with template
  content V1, overwriting the same template file with content V2 and rebuilding in
  the same process yields output reflecting V2) does not hold of the code for a
  template whose file lies elsewhere.  \<^verbatim>\<open>require.cache\<close> is keyed by the file name
  a path resolves to, symbolic links followed, and the clearing compares the keys
  with \<^verbatim>\<open>STORAGE.templates\<close>.  In the example installation the template
  \<^verbatim>\<open>link.js\<close> passes the sandbox and resolves to \<^verbatim>\<open>/srv/shared/t.js\<close>.  The first
  build loads content \<open>V1\<close> and writes its rendering.  The file is overwritten with
  content \<open>V2\<close>, which the loader would give if asked.  The second build finds the
  module of \<open>V1\<close> in the cache, untouched by the clearing, and leaves the rendering
  of \<open>V1\<close> in the output file.
\<close>

theorem stale_template_behind_link:
  "resolveSafePath (cwd example_env) (templates (STORAGE example_env)) ''link.js''
     = Inr ''/app/storage/templates/link.js''
   \<and> resolveFilename example_env (fs shared_world) ''/app/storage/templates/link.js''
       = Inr ''/srv/shared/t.js''
   \<and> \<not> startsWith ''/srv/shared/t.js'' (templates (STORAGE example_env))
   \<and> performBuild example_env shared_world ''link.js'' [] ''reports''
       = (Inr ''reports/index.html'',
          \<lparr> cache = [''/srv/shared/t.js'' \<mapsto> VObject [(''default'', VFunction ''V1'' [])]],
            loader = (),
            fs = [(''/srv/shared/t.js'', ''V1''),
                  (''/app/storage/output/reports/index.html'', ''V1'')] \<rparr>)
   \<and> AList.update ''/srv/shared/t.js'' ''V2''
         [(''/srv/shared/t.js'', ''V1''), (''/app/storage/output/reports/index.html'', ''V1'')]
       = [(''/srv/shared/t.js'', ''V2''), (''/app/storage/output/reports/index.html'', ''V1'')]
   \<and> loadModule example_env ()
         [(''/srv/shared/t.js'', ''V2''), (''/app/storage/output/reports/index.html'', ''V1'')]
         ''/srv/shared/t.js''
       = (Inr (VObject [(''default'', VFunction ''V2'' [])]), ())
   \<and> performBuild example_env
        \<lparr> cache = [''/srv/shared/t.js'' \<mapsto> VObject [(''default'', VFunction ''V1'' [])]],
          loader = (),
          fs = [(''/srv/shared/t.js'', ''V2''),
                (''/app/storage/output/reports/index.html'', ''V1'')] \<rparr>
        ''link.js'' [] ''reports''
       = (Inr ''reports/index.html'',
          \<lparr> cache = [''/srv/shared/t.js'' \<mapsto> VObject [(''default'', VFunction ''V1'' [])]],
            loader = (),
            fs = [(''/srv/shared/t.js'', ''V2''),
                  (''/app/storage/output/reports/index.html'', ''V1'')] \<rparr>)"
proof -
  have 1: "resolveSafePath (cwd example_env) (templates (STORAGE example_env)) ''link.js''
     = Inr ''/app/storage/templates/link.js''"
    by (simp add: example_STORAGE example_cwd shared_template_path)
  have 2: "resolveFilename example_env (fs shared_world) ''/app/storage/templates/link.js''
       = Inr ''/srv/shared/t.js''"
    by (simp add: example_fields shared_world_def)
  have 3: "\<not> startsWith ''/srv/shared/t.js'' (templates (STORAGE example_env))"
    by (simp add: example_STORAGE startsWith_def)
  have 5: "AList.update ''/srv/shared/t.js'' ''V2''
         [(''/srv/shared/t.js'', ''V1''), (''/app/storage/output/reports/index.html'', ''V1'')]
       = [(''/srv/shared/t.js'', ''V2''), (''/app/storage/output/reports/index.html'', ''V1'')]"
    by simp
  have 6: "loadModule example_env ()
         [(''/srv/shared/t.js'', ''V2''), (''/app/storage/output/reports/index.html'', ''V1'')]
         ''/srv/shared/t.js''
       = (Inr (VObject [(''default'', VFunction ''V2'' [])]), ())"
    by (simp add: example_fields example_module_def)
  from 1 2 3 shared_build_first 5 6 shared_build_second
  show ?thesis by (intro conjI) assumption+
qed


end
